theory Spec2Isabelle
  imports Complex_Main
begin

section \<open>Python values used by the viewer\<close>

text \<open>
  The program is \<^verbatim>\<open>src/main.py\<close>: a viewer that drives two spectrum analysers over
  VISA. Strings are character lists. A Python float is modelled as a real number: the
  arithmetic of the program (halving a span, scaling a sweep time, evenly spaced points,
  element-wise maxima) is taken exactly, without rounding, infinities or NaN.

  Exceptions are values. Only the class of an exception matters to the program
  (every handler is \<^verbatim>\<open>except Exception\<close> or a bare \<^verbatim>\<open>except\<close>).
\<close>

datatype exn =
  ValueError | IndexError | AttributeError | VisaIOError | RuntimeError | OverflowError

subsection \<open>Strings\<close>

definition is_space :: "char \<Rightarrow> bool" where
  \<comment> \<open>\<^verbatim>\<open>str.isspace\<close> on one character with a code below 256.\<close>
  "is_space c =
     (let n = (of_char c :: nat)
      in (9 \<le> n \<and> n \<le> 13) \<or> (28 \<le> n \<and> n \<le> 32) \<or> n = 133 \<or> n = 160)"

definition strip :: "string \<Rightarrow> string" where
  \<comment> \<open>\<^verbatim>\<open>s.strip()\<close>\<close>
  "strip s = rev (dropWhile is_space (rev (dropWhile is_space s)))"

definition is_num_space :: "char \<Rightarrow> bool" where
  \<comment> \<open>the whitespace \<^verbatim>\<open>int\<close> and \<^verbatim>\<open>float\<close> skip around a number: not the
      separators 28 to 31, which \<^verbatim>\<open>str.strip\<close> removes\<close>
  "is_num_space c =
     (let n = (of_char c :: nat)
      in (9 \<le> n \<and> n \<le> 13) \<or> n = 32 \<or> n = 133 \<or> n = 160)"

definition num_strip :: "string \<Rightarrow> string" where
  "num_strip s = rev (dropWhile is_num_space (rev (dropWhile is_num_space s)))"

definition replace_char :: "char \<Rightarrow> char \<Rightarrow> string \<Rightarrow> string" where
  \<comment> \<open>\<^verbatim>\<open>s.replace(a, b)\<close> for one-character \<open>a\<close> and \<open>b\<close>\<close>
  "replace_char a b s = map (\<lambda>c. if c = a then b else c) s"

fun split_on :: "char \<Rightarrow> string \<Rightarrow> string list" where
  \<comment> \<open>\<^verbatim>\<open>s.split(sep)\<close> for a one-character separator: never an empty list\<close>
  "split_on sep [] = [[]]"
| "split_on sep (c # cs) =
     (if c = sep then [] # split_on sep cs
      else (case split_on sep cs of
              [] \<Rightarrow> [[c]]
            | t # ts \<Rightarrow> (c # t) # ts))"

definition py_slice :: "'a list \<Rightarrow> int \<Rightarrow> int \<Rightarrow> 'a list" where
  \<comment> \<open>\<^verbatim>\<open>xs[i:j]\<close>: a negative bound counts from the end, both bounds are clipped\<close>
  "py_slice xs i j =
     (let n = int (length xs);
          lo = (if i < 0 then max 0 (n + i) else min i n);
          hi = (if j < 0 then max 0 (n + j) else min j n)
      in take (nat (hi - lo)) (drop (nat lo) xs))"

definition py_item :: "'a list \<Rightarrow> nat \<Rightarrow> exn + 'a" where
  \<comment> \<open>\<^verbatim>\<open>xs[i]\<close> for a non-negative index\<close>
  "py_item xs i = (if i < length xs then Inr (xs ! i) else Inl IndexError)"

subsection \<open>Integers from text\<close>

definition is_digit :: "char \<Rightarrow> bool" where
  "is_digit c = (let n = (of_char c :: nat) in 48 \<le> n \<and> n \<le> 57)"

definition digit_val :: "char \<Rightarrow> nat" where
  "digit_val c = of_char c - 48"

fun int_rest :: "nat \<Rightarrow> string \<Rightarrow> nat option" where
  \<comment> \<open>the rest of a decimal literal after a digit: digits, single underscores between them\<close>
  "int_rest acc [] = Some acc"
| "int_rest acc [c] = (if is_digit c then Some (10 * acc + digit_val c) else None)"
| "int_rest acc (c # d # cs) =
     (if is_digit c then int_rest (10 * acc + digit_val c) (d # cs)
      else if c = CHR ''_'' \<and> is_digit d then int_rest (10 * acc + digit_val d) cs
      else None)"

definition int_digits :: "string \<Rightarrow> nat option" where
  "int_digits s =
     (case s of
        [] \<Rightarrow> None
      | c # cs \<Rightarrow> if is_digit c then int_rest (digit_val c) cs else None)"

definition py_int :: "string \<Rightarrow> int option" where
  \<comment> \<open>\<^verbatim>\<open>int(s)\<close>: surrounding whitespace, an optional sign, decimal digits;
      \<open>None\<close> is ValueError\<close>
  "py_int s =
     (case num_strip s of
        [] \<Rightarrow> None
      | c # cs \<Rightarrow>
          if c = CHR ''-'' then map_option (\<lambda>n. - int n) (int_digits cs)
          else if c = CHR ''+'' then map_option int (int_digits cs)
          else map_option int (int_digits (c # cs)))"

subsection \<open>Floats from text\<close>

text \<open>
  \<^verbatim>\<open>float(s)\<close> is the language's own parser. The model takes it as a parameter
  \<open>flt :: string \<Rightarrow> real option\<close>, \<open>None\<close> standing for ValueError, so that every
  statement below holds for whatever the parser accepts. For concrete runs
  \<open>dec_float\<close> reads the decimal literals as \<^verbatim>\<open>float\<close> does: single underscores
  between digits are dropped, the whitespace around the number is skipped, then come an
  optional sign, digits, an optional point and digits, an optional exponent. The value
  is exact, not rounded. The texts \<^verbatim>\<open>float\<close> reads as an infinity or as NaN have no
  value among the reals; \<open>dec_float\<close> is not used on them.
\<close>

type_synonym float_parser = "string \<Rightarrow> real option"

definition digits_nat :: "string \<Rightarrow> nat" where
  "digits_nat s = foldl (\<lambda>acc c. 10 * acc + digit_val c) 0 s"

definition mantissa :: "string \<Rightarrow> real option" where
  \<comment> \<open>digits, an optional point, digits; at least one digit\<close>
  "mantissa s =
     (let ip = takeWhile is_digit s; r = dropWhile is_digit s
      in case r of
           [] \<Rightarrow> if ip = [] then None else Some (real (digits_nat ip))
         | c # fp \<Rightarrow>
             if c = CHR ''.'' \<and> list_all is_digit fp \<and> ip @ fp \<noteq> []
             then Some (real (digits_nat (ip @ fp)) / 10 ^ length fp)
             else None)"

definition exponent :: "string \<Rightarrow> (bool \<times> nat) option" where
  \<comment> \<open>an optional sign and at least one digit; \<open>True\<close> for a negative exponent\<close>
  "exponent s =
     (case s of
        [] \<Rightarrow> None
      | c # cs \<Rightarrow>
          if c = CHR ''-'' then (if cs \<noteq> [] \<and> list_all is_digit cs then Some (True, digits_nat cs) else None)
          else if c = CHR ''+'' then (if cs \<noteq> [] \<and> list_all is_digit cs then Some (False, digits_nat cs) else None)
          else if list_all is_digit (c # cs) then Some (False, digits_nat (c # cs)) else None)"

definition is_exp_mark :: "char \<Rightarrow> bool" where
  "is_exp_mark c = (c = CHR ''e'' \<or> c = CHR ''E'')"

definition unsigned_float :: "string \<Rightarrow> real option" where
  "unsigned_float s =
     (let m = takeWhile (\<lambda>c. \<not> is_exp_mark c) s; r = dropWhile (\<lambda>c. \<not> is_exp_mark c) s
      in case r of
           [] \<Rightarrow> mantissa m
         | _ # ex \<Rightarrow>
             (case mantissa m of
                None \<Rightarrow> None
              | Some x \<Rightarrow>
                  (case exponent ex of
                     None \<Rightarrow> None
                   | Some (neg, k) \<Rightarrow> Some (if neg then x / 10 ^ k else x * 10 ^ k))))"

fun drop_underscores :: "char \<Rightarrow> string \<Rightarrow> string option" where
  \<comment> \<open>the text without its underscores, each of which must stand between two digits;
      the first argument is the character before\<close>
  "drop_underscores prev [] = (if prev = CHR ''_'' then None else Some [])"
| "drop_underscores prev (c # cs) =
     (if c = CHR ''_'' then (if is_digit prev then drop_underscores c cs else None)
      else if prev = CHR ''_'' \<and> \<not> is_digit c then None
      else map_option (Cons c) (drop_underscores c cs))"

definition signed_float :: "string \<Rightarrow> real option" where
  "signed_float s =
     (case s of
        [] \<Rightarrow> None
      | c # cs \<Rightarrow>
          if c = CHR ''-'' then map_option uminus (unsigned_float cs)
          else if c = CHR ''+'' then unsigned_float cs
          else unsigned_float (c # cs))"

definition dec_float :: float_parser where
  "dec_float s =
     (case drop_underscores (CHR 0x00) s of
        None \<Rightarrow> None
      | Some t \<Rightarrow> signed_float (num_strip t))"

section \<open>The control panel of one analyser\<close>

text \<open>
  \<^verbatim>\<open>SpectrumAnalyzerPanel\<close>: the entry fields and option menus the engine reads, and
  what its setters show. Widgets are reduced to their contents.
\<close>

record panel =
  ip_entry :: string
  freq_mode :: string
  start_entry :: string
  stop_entry :: string
  center_entry :: string
  span_entry :: string
  points_var :: string
  bw_res_var :: string
  bw_vid_var :: string
  shown_connected :: bool
  shown_idn :: string
  continuous_active :: bool
  message :: "string \<times> bool"
  sweeping :: bool

definition new_panel :: "string \<Rightarrow> panel" where
  \<comment> \<open>\<^verbatim>\<open>SpectrumAnalyzerPanel.__init__\<close>: the initial contents\<close>
  "new_panel default_ip =
     \<lparr> ip_entry = default_ip, freq_mode = ''start_stop'',
       start_entry = ''0'', stop_entry = ''3000'',
       center_entry = ''1000'', span_entry = ''2000'',
       points_var = ''3001'', bw_res_var = ''1M'', bw_vid_var = ''1M'',
       shown_connected = False, shown_idn = [], continuous_active = False,
       message = ([], False), sweeping = False \<rparr>"

definition set_connected :: "bool \<Rightarrow> string \<Rightarrow> panel \<Rightarrow> panel" where
  "set_connected c idn p =
     (if c then p\<lparr>shown_connected := True,
                  shown_idn := (if 30 < length idn then take 30 idn @ ''...'' else idn)\<rparr>
      else p\<lparr>shown_connected := False, shown_idn := []\<rparr>)"

definition set_continuous_active :: "bool \<Rightarrow> panel \<Rightarrow> panel" where
  "set_continuous_active a p = p\<lparr>continuous_active := a\<rparr>"

definition set_message :: "string \<Rightarrow> bool \<Rightarrow> panel \<Rightarrow> panel" where
  "set_message m is_error p = p\<lparr>message := (m, is_error)\<rparr>"

definition set_sweeping :: "bool \<Rightarrow> panel \<Rightarrow> panel" where
  "set_sweeping b p = p\<lparr>sweeping := b\<rparr>"

section \<open>Frequency range of a panel\<close>

definition field_float :: "float_parser \<Rightarrow> string \<Rightarrow> exn + real" where
  \<comment> \<open>\<^verbatim>\<open>float(entry.get().replace(",", "."))\<close>\<close>
  "field_float flt s =
     (case flt (replace_char (CHR '','') (CHR ''.'') s) of
        None \<Rightarrow> Inl ValueError
      | Some x \<Rightarrow> Inr x)"

definition get_freq_range_for_panel :: "float_parser \<Rightarrow> panel \<Rightarrow> exn + (real \<times> real)" where
  "get_freq_range_for_panel flt p =
     (if freq_mode p = ''center_span'' then
        (case field_float flt (center_entry p) of
           Inl e \<Rightarrow> Inl e
         | Inr center \<Rightarrow>
             (case field_float flt (span_entry p) of
                Inl e \<Rightarrow> Inl e
              | Inr span_v \<Rightarrow> Inr (center - span_v / 2, center + span_v / 2)))
      else
        (case field_float flt (start_entry p) of
           Inl e \<Rightarrow> Inl e
         | Inr start \<Rightarrow>
             (case field_float flt (stop_entry p) of
                Inl e \<Rightarrow> Inl e
              | Inr stop \<Rightarrow> Inr (start, stop))))"


section \<open>The instrument behind a session\<close>

text \<open>
  Commands are the texts the program writes with its f-strings; a number formatted into a
  command is kept as the number.
\<close>

datatype scpi =
    OPC_query | IDN_query
  | BAND_RES_AUTO_ON | BAND_RES real | BAND_VID real
  | FREQ_STAR real | FREQ_STOP real | FREQ_CENT real | FREQ_SPAN real
  | SWE_POIN int | DET_POS | FORM_TRAC_DATA_ASCII
  | INIT_CONT_OFF | INIT
  | SWE_TIME_query | SWE_POIN_query | FREQ_STAR_query | FREQ_STOP_query | TRAC_DATA_query

text \<open>
  The transport is scripted: every \<^verbatim>\<open>open_resource\<close>, \<^verbatim>\<open>write\<close>,
  \<^verbatim>\<open>read\<close> and \<^verbatim>\<open>close\<close> takes the next outcome of the script, a failure
  (the call raises) or a success carrying the text a read returns. An exhausted script
  answers no more: the call raises, as on a timeout.
\<close>

datatype io = IoErr | IoOk string

text \<open>
  Console lines that report an exception or a warning; progress lines are left out.

  What the program does around one instrument is collected in a \<open>wire\<close>: the commands
  delivered to the instrument (\<open>sent\<close>), the outcomes still to come, the delays slept,
  the console lines, whether a session is open. \<open>attempted\<close> lists the command of
  every write statement that was executed, delivered or not; the program never reads it.
\<close>

datatype log_line =
    ConfigError exn
  | PointsWarning int nat
  | SweepErrorLine nat exn
  | SetupError exn
  | ConnectionErrorLine exn

record wire =
  attempted :: "scpi list"
  sent :: "scpi list"
  script :: "io list"
  slept :: "real list"
  console :: "log_line list"
  session_open :: bool

record instrument =
  timeout :: nat

type_synonym 'a act = "wire \<Rightarrow> (exn + 'a) \<times> wire"

definition ok :: "'a \<Rightarrow> 'a act" where
  "ok x = (\<lambda>w. (Inr x, w))"

definition raise :: "exn \<Rightarrow> 'a act" where
  "raise e = (\<lambda>w. (Inl e, w))"

definition bind :: "'a act \<Rightarrow> ('a \<Rightarrow> 'b act) \<Rightarrow> 'b act" where
  \<comment> \<open>one statement after another: an exception skips what follows\<close>
  "bind m f = (\<lambda>w. case m w of (Inl e, w') \<Rightarrow> (Inl e, w') | (Inr x, w') \<Rightarrow> f x w')"

definition try_except :: "'a act \<Rightarrow> (exn \<Rightarrow> 'a act) \<Rightarrow> 'a act" where
  \<comment> \<open>\<^verbatim>\<open>try: m  except Exception as e: h(e)\<close>\<close>
  "try_except m h = (\<lambda>w. case m w of (Inl e, w') \<Rightarrow> h e w' | (Inr x, w') \<Rightarrow> (Inr x, w'))"

definition sleep_fits :: "real \<Rightarrow> bool" where
  \<comment> \<open>the interpreter keeps a delay as a signed 64-bit number of nanoseconds\<close>
  "sleep_fits t = (t * 1000000000 < 9223372036854775808)"

definition sleep :: "real \<Rightarrow> unit act" where
  \<comment> \<open>\<^verbatim>\<open>time.sleep(t)\<close>: ValueError for a negative delay, OverflowError for one that
      does not fit, both raised by the interpreter before it waits. A delay it accepts is
      logged; what the operating system makes of it is not modelled.\<close>
  "sleep t =
     (\<lambda>w. if t < 0 then (Inl ValueError, w)
          else if sleep_fits t then (Inr (), w\<lparr>slept := slept w @ [t]\<rparr>)
          else (Inl OverflowError, w))"

definition print_line :: "log_line \<Rightarrow> unit act" where
  "print_line l = (\<lambda>w. (Inr (), w\<lparr>console := console w @ [l]\<rparr>))"

definition inst_write :: "instrument option \<Rightarrow> scpi \<Rightarrow> unit act" where
  \<comment> \<open>\<^verbatim>\<open>inst.write(cmd)\<close>; on \<^verbatim>\<open>None\<close> the attribute lookup fails\<close>
  "inst_write inst cmd =
     (\<lambda>w0. let w = w0\<lparr>attempted := attempted w0 @ [cmd]\<rparr> in
          case inst of
            None \<Rightarrow> (Inl AttributeError, w)
          | Some h \<Rightarrow>
              (case script w of
                 [] \<Rightarrow> (Inl VisaIOError, w)
               | IoErr # rest \<Rightarrow> (Inl VisaIOError, w\<lparr>script := rest\<rparr>)
               | IoOk t # rest \<Rightarrow> (Inr (), w\<lparr>sent := sent w @ [cmd], script := rest\<rparr>)))"

definition inst_read :: "instrument option \<Rightarrow> string act" where
  \<comment> \<open>\<^verbatim>\<open>inst.read()\<close>\<close>
  "inst_read inst =
     (\<lambda>w. case inst of
            None \<Rightarrow> (Inl AttributeError, w)
          | Some h \<Rightarrow>
              (case script w of
                 [] \<Rightarrow> (Inl VisaIOError, w)
               | IoErr # rest \<Rightarrow> (Inl VisaIOError, w\<lparr>script := rest\<rparr>)
               | IoOk t # rest \<Rightarrow> (Inr t, w\<lparr>script := rest\<rparr>)))"

definition inst_close :: "unit act" where
  \<comment> \<open>\<^verbatim>\<open>inst.close()\<close> on an instrument that is not \<^verbatim>\<open>None\<close>\<close>
  "inst_close =
     (\<lambda>w. case script w of
            [] \<Rightarrow> (Inl VisaIOError, w)
          | IoErr # rest \<Rightarrow> (Inl VisaIOError, w\<lparr>script := rest\<rparr>)
          | IoOk t # rest \<Rightarrow> (Inr (), w\<lparr>script := rest, session_open := False\<rparr>))"

definition open_resource :: "instrument act" where
  \<comment> \<open>\<^verbatim>\<open>rm.open_resource(...)\<close>; the new handle's timeout is set by the caller\<close>
  "open_resource =
     (\<lambda>w. case script w of
            [] \<Rightarrow> (Inl VisaIOError, w)
          | IoErr # rest \<Rightarrow> (Inl VisaIOError, w\<lparr>script := rest\<rparr>)
          | IoOk t # rest \<Rightarrow> (Inr \<lparr>timeout = 0\<rparr>, w\<lparr>script := rest, session_open := True\<rparr>))"

definition to_float :: "float_parser \<Rightarrow> string \<Rightarrow> real act" where
  \<comment> \<open>\<^verbatim>\<open>float(s)\<close> as a statement that may raise\<close>
  "to_float flt s = (case flt s of None \<Rightarrow> raise ValueError | Some x \<Rightarrow> ok x)"

definition to_int :: "string \<Rightarrow> int act" where
  \<comment> \<open>\<^verbatim>\<open>int(s)\<close> as a statement that may raise\<close>
  "to_int s = (case py_int s of None \<Rightarrow> raise ValueError | Some n \<Rightarrow> ok n)"

section \<open>Configuration of a sweep\<close>

definition expand_suffix :: "string \<Rightarrow> string" where
  \<comment> \<open>\<^verbatim>\<open>s.replace('k', 'e3').replace('M', 'e6')\<close>\<close>
  "expand_suffix s =
     concat (map (\<lambda>c. if c = CHR ''M'' then ''e6'' else [c])
       (concat (map (\<lambda>c. if c = CHR ''k'' then ''e3'' else [c]) s)))"

definition configure_writes ::
  "float_parser \<Rightarrow> instrument option \<Rightarrow> real \<Rightarrow> real \<Rightarrow> int \<Rightarrow> string \<Rightarrow> string \<Rightarrow> unit act" where
  \<comment> \<open>the body of the \<^verbatim>\<open>try\<close> of \<^verbatim>\<open>_configure_sa\<close>\<close>
  "configure_writes flt inst start_hz stop_hz points bw_res bw_vid =
     bind (if bw_res = ''auto'' then inst_write inst BAND_RES_AUTO_ON
           else bind (to_float flt (expand_suffix bw_res))
                  (\<lambda>bw_res_hz. inst_write inst (BAND_RES bw_res_hz))) (\<lambda>_.
     bind (to_float flt (expand_suffix bw_vid)) (\<lambda>bw_vid_hz.
     bind (inst_write inst (FREQ_STAR start_hz)) (\<lambda>_.
     bind (sleep (1 / 10)) (\<lambda>_.
     bind (inst_write inst (FREQ_STOP stop_hz)) (\<lambda>_.
     bind (sleep (1 / 10)) (\<lambda>_.
     bind (inst_write inst (FREQ_CENT ((start_hz + stop_hz) / 2))) (\<lambda>_.
     bind (sleep (1 / 10)) (\<lambda>_.
     bind (inst_write inst (FREQ_SPAN (stop_hz - start_hz))) (\<lambda>_.
     bind (sleep (1 / 10)) (\<lambda>_.
     bind (inst_write inst (SWE_POIN points)) (\<lambda>_.
     bind (sleep (1 / 10)) (\<lambda>_.
     bind (inst_write inst (BAND_VID bw_vid_hz)) (\<lambda>_.
     bind (sleep (1 / 10)) (\<lambda>_.
     bind (inst_write inst DET_POS) (\<lambda>_.
     bind (sleep (1 / 10)) (\<lambda>_.
     bind (inst_write inst FORM_TRAC_DATA_ASCII) (\<lambda>_.
     sleep (1 / 10))))))))))))))))))"

definition configure_sa ::
  "float_parser \<Rightarrow> instrument option \<Rightarrow> real \<Rightarrow> real \<Rightarrow> int \<Rightarrow> string \<Rightarrow> string \<Rightarrow> unit act" where
  \<comment> \<open>\<^verbatim>\<open>_configure_sa\<close>: one \<^verbatim>\<open>try\<close> around all the writes, the handler prints\<close>
  "configure_sa flt inst start_mhz stop_mhz points bw_res bw_vid =
     try_except
       (configure_writes flt inst (start_mhz * 1000000) (stop_mhz * 1000000) points bw_res bw_vid)
       (\<lambda>e. print_line (ConfigError e))"

section \<open>A single sweep\<close>

definition single_sweep :: "float_parser \<Rightarrow> instrument option \<Rightarrow> unit act" where
  \<comment> \<open>\<^verbatim>\<open>_single_sweep\<close>\<close>
  "single_sweep flt inst =
     bind (inst_write inst INIT_CONT_OFF) (\<lambda>_.
     bind (sleep (1 / 10)) (\<lambda>_.
     bind (inst_write inst INIT) (\<lambda>_.
     bind (try_except
             (bind (inst_write inst SWE_TIME_query) (\<lambda>_.
              bind (sleep (15 / 100)) (\<lambda>_.
              bind (inst_read inst) (\<lambda>r. to_float flt r))))
             (\<lambda>e. ok (3 / 2))) (\<lambda>st.
     sleep (max (3 / 2) (st * (11 / 10)))))))"

section \<open>Reading a trace\<close>

definition startswith_hash :: "string \<Rightarrow> bool" where
  \<comment> \<open>\<^verbatim>\<open>raw.startswith("#")\<close>\<close>
  "startswith_hash raw = (case raw of [] \<Rightarrow> False | c # _ \<Rightarrow> c = CHR ''#'')"

definition data_region :: "string \<Rightarrow> exn + string" where
  \<comment> \<open>the data of a response: behind a definite-length header, or all of it\<close>
  "data_region raw =
     (if startswith_hash raw then
        (case py_item raw 1 of
           Inl e \<Rightarrow> Inl e
         | Inr c \<Rightarrow>
             (case py_int [c] of
                None \<Rightarrow> Inl ValueError
              | Some n_digits \<Rightarrow>
                  (case py_int (py_slice raw 2 (2 + n_digits)) of
                     None \<Rightarrow> Inl ValueError
                   | Some data_len \<Rightarrow>
                       Inr (py_slice raw (2 + n_digits) (2 + n_digits + data_len)))))
      else Inr raw)"

definition parse_amplitudes :: "float_parser \<Rightarrow> string \<Rightarrow> exn + real list" where
  \<comment> \<open>\<^verbatim>\<open>[float(p) for p in data_str.split(",") if p.strip()]\<close>\<close>
  "parse_amplitudes flt data_str =
     (case those (map flt (filter (\<lambda>p. strip p \<noteq> []) (split_on (CHR '','') data_str))) of
        None \<Rightarrow> Inl ValueError
      | Some vals \<Rightarrow> Inr vals)"

definition linspace :: "real \<Rightarrow> real \<Rightarrow> nat \<Rightarrow> real list" where
  \<comment> \<open>\<^verbatim>\<open>numpy.linspace(start, stop, num)\<close>, the end point included: no point for
      \<open>num = 0\<close>, the start alone for \<open>num = 1\<close>\<close>
  "linspace a b num =
     (if num = 0 then []
      else if num = 1 then [a]
      else map (\<lambda>i. a + real i * ((b - a) / real (num - 1))) [0..<num])"

definition decode_block ::
  "float_parser \<Rightarrow> int \<Rightarrow> real \<Rightarrow> real \<Rightarrow> string \<Rightarrow> (real list \<times> real list) act" where
  \<comment> \<open>\<^verbatim>\<open>_read_trace_ascii_block\<close> from the response of the trace query on\<close>
  "decode_block flt points f_start f_stop response =
     (case data_region (strip response) of
        Inl e \<Rightarrow> raise e
      | Inr data_str \<Rightarrow>
          (case parse_amplitudes flt data_str of
             Inl e \<Rightarrow> raise e
           | Inr vals \<Rightarrow>
               bind (if int (length vals) \<noteq> points
                     then print_line (PointsWarning points (length vals)) else ok ()) (\<lambda>_.
               ok (linspace f_start f_stop (length vals), vals))))"

definition read_trace_ascii_block ::
  "float_parser \<Rightarrow> instrument option \<Rightarrow> (real list \<times> real list) act" where
  \<comment> \<open>\<^verbatim>\<open>_read_trace_ascii_block\<close>\<close>
  "read_trace_ascii_block flt inst =
     bind (inst_write inst SWE_POIN_query) (\<lambda>_.
     bind (sleep (2 / 10)) (\<lambda>_.
     bind (inst_read inst) (\<lambda>r1.
     bind (to_int (strip r1)) (\<lambda>points.
     bind (inst_write inst FREQ_STAR_query) (\<lambda>_.
     bind (sleep (2 / 10)) (\<lambda>_.
     bind (inst_read inst) (\<lambda>r2.
     bind (to_float flt (strip r2)) (\<lambda>f_start.
     bind (inst_write inst FREQ_STOP_query) (\<lambda>_.
     bind (sleep (2 / 10)) (\<lambda>_.
     bind (inst_read inst) (\<lambda>r3.
     bind (to_float flt (strip r3)) (\<lambda>f_stop.
     bind (inst_write inst FORM_TRAC_DATA_ASCII) (\<lambda>_.
     bind (sleep (2 / 10)) (\<lambda>_.
     bind (inst_write inst TRAC_DATA_query) (\<lambda>_.
     bind (sleep (3 / 10)) (\<lambda>_.
     bind (inst_read inst) (\<lambda>response.
     decode_block flt points f_start f_stop response)))))))))))))))))"

section \<open>The plot of one analyser\<close>

text \<open>
  \<^verbatim>\<open>SpectrumPlot\<close>, reduced to the data it holds: the last trace, the last peak
  trace, and the data of its two lines. Axes, zoom and marker are left out.
\<close>

record plot =
  current_freqs :: "real list option"
  current_vals :: "real list option"
  current_max_vals :: "real list option"
  line_current :: "(real list \<times> real list) option"
  line_max :: "(real list \<times> real list) option"

definition new_plot :: plot where
  "new_plot = \<lparr> current_freqs = None, current_vals = None, current_max_vals = None,
                line_current = None, line_max = None \<rparr>"

definition update_data ::
  "real list \<Rightarrow> real list \<Rightarrow> real list option \<Rightarrow> real list option \<Rightarrow> plot \<Rightarrow> (exn + unit) \<times> plot" where
  \<comment> \<open>\<^verbatim>\<open>SpectrumPlot.update_data\<close>: \<^verbatim>\<open>freqs_mhz[0]\<close> raises on an empty trace, after
      the current data have been stored\<close>
  "update_data freqs_mhz vals max_freqs_mhz max_vals pl =
     (let pl1 = pl\<lparr>current_freqs := Some freqs_mhz, current_vals := Some vals,
                    current_max_vals := max_vals\<rparr>
      in if freqs_mhz = [] then (Inl IndexError, pl1)
         else (Inr (),
               pl1\<lparr>line_current := Some (freqs_mhz, vals),
                   line_max := (case max_vals of
                                  None \<Rightarrow> line_max pl1
                                | Some mv \<Rightarrow>
                                    (case max_freqs_mhz of
                                       None \<Rightarrow> line_max pl1
                                     | Some mf \<Rightarrow> Some (mf, mv)))\<rparr>))"

definition clear :: "plot \<Rightarrow> plot" where
  \<comment> \<open>\<^verbatim>\<open>SpectrumPlot.clear\<close>\<close>
  "clear pl = new_plot"

section \<open>The viewer\<close>

text \<open>
  \<^verbatim>\<open>DualSAViewer\<close> keeps every attribute twice, once per analyser, and has every
  method twice: \<^verbatim>\<open>connect1\<close> and \<^verbatim>\<open>connect2\<close>, \<^verbatim>\<open>_start_continuous1\<close> and
  \<^verbatim>\<open>_start_continuous2\<close>, and so on. The two copies of a method differ in the digit
  only. The model keeps the attributes of one analyser in a \<open>session\<close>, the viewer
  holds two of them, and a method takes the analyser it belongs to.

  Callbacks handed to the user-interface thread with \<^verbatim>\<open>self.after\<close> are queued in
  \<open>pending\<close>; threads that were started are listed in \<open>workers\<close>; error dialogs in
  \<open>dialogs\<close>.
\<close>

datatype sa = SA1 | SA2

datatype ui_call =
    UpdatePlot "real list" "real list"
  | SetMessage string bool
  | SetContinuousActive bool

datatype worker = ContinuousWorker

datatype dialog = InvalidAddress | NotConnected | ConnectFailed exn

datatype backend = DefaultBackend | PyBackend

record session =
  inst :: "instrument option"
  wire :: wire
  max_vals :: "real list option"
  max_freqs :: "real list option"
  continuous :: bool
  sa_panel :: panel
  sa_plot :: plot
  pending :: "ui_call list"
  workers :: "worker list"
  dialogs :: "dialog list"

record viewer =
  sa1 :: session
  sa2 :: session
  rm :: "backend option"
  default_backend_ok :: bool
  py_backend_ok :: bool

definition sess :: "sa \<Rightarrow> viewer \<Rightarrow> session" where
  "sess k v = (case k of SA1 \<Rightarrow> sa1 v | SA2 \<Rightarrow> sa2 v)"

definition put :: "sa \<Rightarrow> session \<Rightarrow> viewer \<Rightarrow> viewer" where
  "put k s v = (case k of SA1 \<Rightarrow> v\<lparr>sa1 := s\<rparr> | SA2 \<Rightarrow> v\<lparr>sa2 := s\<rparr>)"

definition other :: "sa \<Rightarrow> sa" where
  "other k = (case k of SA1 \<Rightarrow> SA2 | SA2 \<Rightarrow> SA1)"

definition on_wire :: "'a act \<Rightarrow> session \<Rightarrow> (exn + 'a) \<times> session" where
  \<comment> \<open>statements that talk to the session's instrument\<close>
  "on_wire m s = (case m (wire s) of (r, w') \<Rightarrow> (r, s\<lparr>wire := w'\<rparr>))"

definition new_session :: "string \<Rightarrow> io list \<Rightarrow> session" where
  \<comment> \<open>\<^verbatim>\<open>DualSAViewer.__init__\<close>, for one analyser, in front of a scripted transport\<close>
  "new_session default_ip s =
     \<lparr> inst = None,
       wire = \<lparr>attempted = [], sent = [], script = s, slept = [], console = [],
               session_open = False\<rparr>,
       max_vals = None, max_freqs = None, continuous = False,
       sa_panel = new_panel default_ip, sa_plot = new_plot,
       pending = [], workers = [], dialogs = [] \<rparr>"

definition new_viewer :: "io list \<Rightarrow> io list \<Rightarrow> viewer" where
  "new_viewer s1 s2 =
     \<lparr> sa1 = new_session ''192.168.60.70'' s1, sa2 = new_session ''192.168.60.69'' s2,
       rm = None, default_backend_ok = True, py_backend_ok = True \<rparr>"

subsection \<open>Peak hold\<close>

definition np_maximum :: "real list \<Rightarrow> real list \<Rightarrow> real list" where
  \<comment> \<open>\<^verbatim>\<open>numpy.maximum\<close> of two arrays of the same length\<close>
  "np_maximum xs ys = map (\<lambda>(x, y). max x y) (zip xs ys)"

definition reinit_peak :: "real list \<Rightarrow> real list \<Rightarrow> session \<Rightarrow> session" where
  \<comment> \<open>\<^verbatim>\<open>self.max_freqs1 = freqs.copy(); self.max_vals1 = vals.copy()\<close>\<close>
  "reinit_peak freqs vals s = s\<lparr>max_freqs := Some freqs, max_vals := Some vals\<rparr>"

definition hold_peak :: "real list \<Rightarrow> real list \<Rightarrow> session \<Rightarrow> session" where
  \<comment> \<open>the \<^verbatim>\<open>if\<close> of \<^verbatim>\<open>_update_plot1\<close>\<close>
  "hold_peak freqs vals s =
     (case max_vals s of
        None \<Rightarrow> reinit_peak freqs vals s
      | Some mv \<Rightarrow>
          (case max_freqs s of
             None \<Rightarrow> reinit_peak freqs vals s
           | Some mf \<Rightarrow>
               if length mv \<noteq> length vals then reinit_peak freqs vals s
               else s\<lparr>max_vals := Some (np_maximum mv vals)\<rparr>))"

definition update_plot_session :: "real list \<Rightarrow> real list \<Rightarrow> session \<Rightarrow> (exn + unit) \<times> session" where
  \<comment> \<open>\<^verbatim>\<open>_update_plot1\<close>, \<^verbatim>\<open>_update_plot2\<close>\<close>
  "update_plot_session freqs vals s =
     (let freqs_mhz = map (\<lambda>f. f / 1000000) freqs;
          s1 = hold_peak freqs vals s;
          max_freqs_mhz = map_option (map (\<lambda>f. f / 1000000)) (max_freqs s1)
      in case update_data freqs_mhz vals max_freqs_mhz (max_vals s1) (sa_plot s1) of
           (r, pl) \<Rightarrow> (r, s1\<lparr>sa_plot := pl\<rparr>))"

definition update_plot :: "sa \<Rightarrow> real list \<Rightarrow> real list \<Rightarrow> viewer \<Rightarrow> viewer" where
  \<comment> \<open>the method as a callback of the user-interface thread: an exception ends the
      callback and leaves what was assigned before it\<close>
  "update_plot k freqs vals v = put k (snd (update_plot_session freqs vals (sess k v))) v"

definition reset_peak :: "sa \<Rightarrow> viewer \<Rightarrow> viewer" where
  \<comment> \<open>\<^verbatim>\<open>reset_peak1\<close> (its second definition, which is the one in force), \<^verbatim>\<open>reset_peak2\<close>\<close>
  "reset_peak k v =
     (let s = sess k v
      in put k (s\<lparr>max_vals := None, max_freqs := None,
                  sa_plot := (sa_plot s)\<lparr>line_max := None\<rparr>,
                  sa_panel := set_message ''Peak hold reset'' False (sa_panel s)\<rparr>) v)"

subsection \<open>Connecting and disconnecting\<close>

definition get_rm :: "viewer \<Rightarrow> (exn + backend) \<times> viewer" where
  \<comment> \<open>\<^verbatim>\<open>_get_rm\<close>: the system backend first, then the pure Python one\<close>
  "get_rm v =
     (case rm v of
        Some b \<Rightarrow> (Inr b, v)
      | None \<Rightarrow>
          if default_backend_ok v then (Inr DefaultBackend, v\<lparr>rm := Some DefaultBackend\<rparr>)
          else if py_backend_ok v then (Inr PyBackend, v\<lparr>rm := Some PyBackend\<rparr>)
          else (Inl RuntimeError, v\<lparr>rm := None\<rparr>))"

definition disconnect_session :: "session \<Rightarrow> session" where
  \<comment> \<open>the branch of \<^verbatim>\<open>connect1\<close> for an analyser that is connected\<close>
  "disconnect_session s =
     (let s1 = s\<lparr>continuous := False,
                  sa_panel := set_continuous_active False (sa_panel s)\<rparr>;
          s2 = snd (on_wire (try_except inst_close (\<lambda>e. ok ())) s1)
      in s2\<lparr>inst := None,
             sa_panel := set_message ''Disconnected'' False (set_connected False [] (sa_panel s2)),
             max_vals := None, max_freqs := None,
             sa_plot := clear (sa_plot s2)\<rparr>)"

definition identify :: "instrument option \<Rightarrow> string act" where
  \<comment> \<open>the identification query of \<^verbatim>\<open>connect1\<close>, after the handle is stored\<close>
  "identify ins =
     bind (sleep 2) (\<lambda>_.
     bind (inst_write ins IDN_query) (\<lambda>_.
     bind (sleep (1 / 2)) (\<lambda>_.
     bind (inst_read ins) (\<lambda>r. ok (strip r)))))"

definition connect_failed :: "exn \<Rightarrow> session \<Rightarrow> session" where
  \<comment> \<open>the handler of \<^verbatim>\<open>connect1\<close>\<close>
  "connect_failed e s =
     (snd (on_wire (print_line (ConnectionErrorLine e)) s))
       \<lparr>inst := None,
        sa_panel := set_message ''Connection failed'' True (set_connected False [] (sa_panel s)),
        dialogs := dialogs s @ [ConnectFailed e]\<rparr>"

definition open_session :: "sa \<Rightarrow> viewer \<Rightarrow> viewer" where
  \<comment> \<open>the \<^verbatim>\<open>try\<close> of \<^verbatim>\<open>connect1\<close>\<close>
  "open_session k v =
     (case get_rm v of
        (Inl e, v1) \<Rightarrow> put k (connect_failed e (sess k v1)) v1
      | (Inr b, v1) \<Rightarrow>
          (case on_wire open_resource (sess k v1) of
             (Inl e, s1) \<Rightarrow> put k (connect_failed e s1) v1
           | (Inr h, s1) \<Rightarrow>
               (let s2 = s1\<lparr>inst := Some (h\<lparr>timeout := 120000\<rparr>)\<rparr>
                in case on_wire (identify (inst s2)) s2 of
                     (Inl e, s3) \<Rightarrow> put k (connect_failed e s3) v1
                   | (Inr idn, s3) \<Rightarrow>
                       put k (s3\<lparr>sa_panel := set_message ''Connected successfully'' False
                                              (set_connected True idn (sa_panel s3))\<rparr>) v1)))"

definition connect :: "sa \<Rightarrow> string \<Rightarrow> viewer \<Rightarrow> viewer" where
  \<comment> \<open>\<^verbatim>\<open>connect1\<close>, \<^verbatim>\<open>connect2\<close>\<close>
  "connect k ip v =
     (let s = sess k v
      in if ip = [] then put k (s\<lparr>dialogs := dialogs s @ [InvalidAddress]\<rparr>) v
         else if inst s \<noteq> None then put k (disconnect_session s) v
         else open_session k v)"

definition connect1 :: "string \<Rightarrow> viewer \<Rightarrow> viewer" where
  "connect1 = connect SA1"

definition connect2 :: "string \<Rightarrow> viewer \<Rightarrow> viewer" where
  "connect2 = connect SA2"

subsection \<open>Continuous sweeps\<close>

definition start_continuous :: "sa \<Rightarrow> viewer \<Rightarrow> viewer" where
  \<comment> \<open>\<^verbatim>\<open>_start_continuous1\<close>, \<^verbatim>\<open>_start_continuous2\<close>: the worker thread is started, its body
      is \<open>do_continuous\<close> below\<close>
  "start_continuous k v =
     (let s = sess k v
      in if \<not> continuous s \<or> inst s = None then v
         else put k (s\<lparr>workers := workers s @ [ContinuousWorker]\<rparr>) v)"

definition toggle_continuous :: "sa \<Rightarrow> viewer \<Rightarrow> viewer" where
  \<comment> \<open>\<^verbatim>\<open>toggle_continuous1\<close>, \<^verbatim>\<open>toggle_continuous2\<close>\<close>
  "toggle_continuous k v =
     (let s = sess k v
      in if inst s = None then put k (s\<lparr>dialogs := dialogs s @ [NotConnected]\<rparr>) v
         else
           (let s1 = s\<lparr>continuous := \<not> continuous s\<rparr>;
                s2 = s1\<lparr>sa_panel := set_continuous_active (continuous s1) (sa_panel s1)\<rparr>;
                v2 = put k s2 v
            in if continuous s2 then start_continuous k v2 else v2))"

text \<open>
  The worker runs in a thread of its own, beside the user-interface thread. The model
  runs the worker against a schedule of what the user-interface thread does to the
  analyser meanwhile: one pair of actions for each pass through the loop, the first
  applied just before the loop looks at the running flag and the handle, the second
  just after, when the iteration is in flight. A loop that is still running when the
  schedule ends has no result (\<open>None\<close>); a result is the state in which the worker
  has returned.
\<close>

datatype ui_action = Idle | ToggleContinuous | Connect string | ResetPeak

definition ui_step :: "sa \<Rightarrow> ui_action \<Rightarrow> viewer \<Rightarrow> viewer" where
  "ui_step k a v =
     (case a of
        Idle \<Rightarrow> v
      | ToggleContinuous \<Rightarrow> toggle_continuous k v
      | Connect ip \<Rightarrow> connect k ip v
      | ResetPeak \<Rightarrow> reset_peak k v)"

definition continuous_setup :: "float_parser \<Rightarrow> session \<Rightarrow> (exn + nat) \<times> session" where
  \<comment> \<open>the worker up to its loop; the value is \<^verbatim>\<open>original_timeout\<close>\<close>
  "continuous_setup flt s =
     (case get_freq_range_for_panel flt (sa_panel s) of
        Inl e \<Rightarrow> (Inl e, s)
      | Inr (start_val, stop_val) \<Rightarrow>
          (case py_int (points_var (sa_panel s)) of
             None \<Rightarrow> (Inl ValueError, s)
           | Some pts \<Rightarrow>
               (case on_wire
                       (bind (configure_sa flt (inst s) start_val stop_val pts
                                (bw_res_var (sa_panel s)) (bw_vid_var (sa_panel s))) (\<lambda>_.
                        bind (inst_write (inst s) INIT_CONT_OFF) (\<lambda>_.
                        sleep (3 / 10)))) s of
                  (Inl e, s1) \<Rightarrow> (Inl e, s1)
                | (Inr u, s1) \<Rightarrow>
                    (case inst s1 of
                       None \<Rightarrow> (Inl AttributeError, s1)
                     | Some h \<Rightarrow> (Inr (timeout h), s1\<lparr>inst := Some (h\<lparr>timeout := 30000\<rparr>)\<rparr>)))))"

definition continuous_iteration :: "float_parser \<Rightarrow> session \<Rightarrow> (exn + unit) \<times> session" where
  \<comment> \<open>the \<^verbatim>\<open>try\<close> inside the loop\<close>
  "continuous_iteration flt s =
     (case on_wire
             (bind (inst_write (inst s) INIT) (\<lambda>_.
              bind (inst_write (inst s) SWE_TIME_query) (\<lambda>_.
              bind (sleep (2 / 10)) (\<lambda>_.
              bind (try_except (bind (inst_read (inst s)) (to_float flt))
                      (\<lambda>e. ok (3 / 2))) (\<lambda>sweep_time.
              bind (sleep (max (3 / 2) (sweep_time * (12 / 10)))) (\<lambda>_.
              read_trace_ascii_block flt (inst s))))))) s of
        (Inl e, s1) \<Rightarrow> (Inl e, s1)
      | (Inr (freqs, vals), s1) \<Rightarrow>
          (Inr (), s1\<lparr>pending := pending s1 @ [UpdatePlot freqs vals]\<rparr>))"

definition sweep_failed :: "nat \<Rightarrow> exn \<Rightarrow> session \<Rightarrow> session" where
  \<comment> \<open>the handler inside the loop, before its \<^verbatim>\<open>break\<close>\<close>
  "sweep_failed sweep_count e s =
     snd (on_wire (bind (print_line (SweepErrorLine sweep_count e)) (\<lambda>_. sleep (1 / 2))) s)"

fun continuous_loop ::
  "sa \<Rightarrow> float_parser \<Rightarrow> (ui_action \<times> ui_action) list \<Rightarrow> nat \<Rightarrow> viewer \<Rightarrow> (nat \<times> viewer) option" where
  \<comment> \<open>the \<^verbatim>\<open>while\<close> of the worker, \<open>None\<close> while it is still running when the
      schedule ends; the number is \<^verbatim>\<open>sweep_count\<close>\<close>
  "continuous_loop k flt [] n v = None"
| "continuous_loop k flt ((a_top, a_in) # rest) n v =
     (let v1 = ui_step k a_top v
      in if continuous (sess k v1) \<and> inst (sess k v1) \<noteq> None then
           (let v2 = ui_step k a_in v1
            in case continuous_iteration flt (sess k v2) of
                 (Inr u, s3) \<Rightarrow> continuous_loop k flt rest (Suc n) (put k s3 v2)
               | (Inl e, s3) \<Rightarrow> Some (n, put k (sweep_failed n e s3) v2))
         else Some (n, v1))"

definition setup_failed :: "exn \<Rightarrow> session \<Rightarrow> session" where
  \<comment> \<open>the outer handler of the worker\<close>
  "setup_failed e s =
     (snd (on_wire (print_line (SetupError e)) s))
       \<lparr>pending := pending s @ [SetMessage ''Sweep error'' True]\<rparr>"

definition finish_continuous :: "session \<Rightarrow> session" where
  \<comment> \<open>the \<^verbatim>\<open>finally\<close> of the worker\<close>
  "finish_continuous s =
     (let s1 = snd (on_wire (try_except (inst_write (inst s) INIT_CONT_OFF) (\<lambda>e. ok ())) s)
      in s1\<lparr>continuous := False, pending := pending s1 @ [SetContinuousActive False]\<rparr>)"

definition do_continuous ::
  "sa \<Rightarrow> float_parser \<Rightarrow> (ui_action \<times> ui_action) list \<Rightarrow> viewer \<Rightarrow> viewer option" where
  \<comment> \<open>\<^verbatim>\<open>do_continuous\<close>, the body of the worker thread\<close>
  "do_continuous k flt schedule v =
     (case continuous_setup flt (sess k v) of
        (Inl e, s1) \<Rightarrow> Some (put k (finish_continuous (setup_failed e s1)) v)
      | (Inr original_timeout, s1) \<Rightarrow>
          (case continuous_loop k flt schedule 0 (put k s1 v) of
             None \<Rightarrow> None
           | Some (n, v2) \<Rightarrow>
               (let s2 = sess k v2
                in case inst s2 of
                     None \<Rightarrow> Some (put k (finish_continuous (setup_failed AttributeError s2)) v2)
                   | Some h \<Rightarrow>
                       Some (put k (finish_continuous
                                      (s2\<lparr>inst := Some (h\<lparr>timeout := original_timeout\<rparr>)\<rparr>)) v2))))"

section \<open>Notions used in the statements\<close>

fun leading_ok :: "io list \<Rightarrow> nat" where
  \<comment> \<open>how many transport operations succeed before the first one that fails\<close>
  "leading_ok [] = 0"
| "leading_ok (IoErr # rest) = 0"
| "leading_ok (IoOk t # rest) = Suc (leading_ok rest)"

function dec :: "nat \<Rightarrow> string" where
  \<comment> \<open>the decimal digits of a number, as an instrument writes a length\<close>
  "dec n = (if n < 10 then [char_of (48 + n)] else dec (n div 10) @ [char_of (48 + n mod 10)])"
  by pat_completeness auto
termination
  by (relation "measure id") auto

definition frame_block :: "string \<Rightarrow> string \<Rightarrow> string" where
  \<comment> \<open>a payload behind a definite-length header: \<open>#\<close>, the number of digits of the
      length field, the length field, the payload\<close>
  "frame_block len_field p = CHR ''#'' # dec (length len_field) @ len_field @ p"

definition rstrip :: "string \<Rightarrow> string" where
  \<comment> \<open>a text without its trailing whitespace\<close>
  "rstrip s = rev (dropWhile is_space (rev s))"

definition connected_viewer :: viewer where
  \<comment> \<open>a viewer whose first analyser has been connected and has one more outcome to come\<close>
  "connected_viewer =
     connect1 ''192.168.60.70'' (new_viewer [IoOk [], IoOk [], IoOk ''Rigol DSA1030'', IoOk []] [])"

fun running_after ::
  "sa \<Rightarrow> float_parser \<Rightarrow> (ui_action \<times> ui_action) list \<Rightarrow> nat \<Rightarrow> viewer \<Rightarrow> (nat \<times> viewer) option" where
  \<comment> \<open>the sweep count and the state of a loop that is still running when the schedule ends;
      \<open>None\<close> when it has ended before\<close>
  "running_after k flt [] n v = Some (n, v)"
| "running_after k flt ((a_top, a_in) # rest) n v =
     (let v1 = ui_step k a_top v
      in if continuous (sess k v1) \<and> inst (sess k v1) \<noteq> None then
           (let v2 = ui_step k a_in v1
            in case continuous_iteration flt (sess k v2) of
                 (Inr u, s3) \<Rightarrow> running_after k flt rest (Suc n) (put k s3 v2)
               | (Inl e, s3) \<Rightarrow> None)
         else None)"

definition running_viewer :: "io list \<Rightarrow> viewer" where
  \<comment> \<open>a viewer whose first analyser is connected and has been told to sweep continuously;
      the script is what the transport will answer from then on\<close>
  "running_viewer s =
     toggle_continuous SA1
       (connect1 ''192.168.60.70'' (new_viewer ([IoOk [], IoOk [], IoOk ''Rigol DSA1030''] @ s) []))"

definition ten_ok :: "io list" where
  \<comment> \<open>the outcomes of the ten writes of a worker's set-up, all of them accepted\<close>
  "ten_ok = [IoOk [], IoOk [], IoOk [], IoOk [], IoOk [], IoOk [], IoOk [], IoOk [], IoOk [],
     IoOk []]"

definition running_panel :: panel where
  \<comment> \<open>the panel of that analyser\<close>
  "running_panel =
     set_continuous_active True (set_message ''Connected successfully'' False
       (set_connected True ''Rigol DSA1030'' (new_panel ''192.168.60.70'')))"

definition configured :: "scpi list" where
  \<comment> \<open>what that analyser has been sent once the worker has configured it from the panel\<close>
  "configured = [IDN_query, BAND_RES 1000000, FREQ_STAR 0, FREQ_STOP 3000000000,
     FREQ_CENT 1500000000, FREQ_SPAN 3000000000, SWE_POIN 3001, BAND_VID 1000000, DET_POS,
     FORM_TRAC_DATA_ASCII, INIT_CONT_OFF]"

definition one_sweep :: "io list" where
  \<comment> \<open>the outcomes of one iteration: a sweep time of 1.0, three points from 0 to 10\<close>
  "one_sweep = [IoOk [], IoOk [], IoOk ''1.0'', IoOk [], IoOk ''3'', IoOk [], IoOk ''0'',
     IoOk [], IoOk ''10'', IoOk [], IoOk [], IoOk ''1,2,3'']"

definition stop_run :: "viewer option" where
  \<comment> \<open>a run in which a stop is requested during the first iteration\<close>
  "stop_run = do_continuous SA1 dec_float [(Idle, ToggleContinuous), (Idle, Idle)]
     (running_viewer (ten_ok @ one_sweep @ [IoOk []]))"

definition disconnect_run :: "viewer option" where
  \<comment> \<open>a run in which the analyser is disconnected after the first iteration\<close>
  "disconnect_run = do_continuous SA1 dec_float [(Idle, Idle), (Connect ''192.168.60.70'', Idle)]
     (running_viewer (ten_ok @ one_sweep @ [IoOk []]))"

definition failing_run :: "viewer option" where
  \<comment> \<open>a run whose first iteration finds the transport dead\<close>
  "failing_run = do_continuous SA1 dec_float [(Idle, Idle)]
     (running_viewer ten_ok)"

definition restart_run :: "viewer option" where
  \<comment> \<open>a run in which a stop is requested during the first iteration and a start before
      the loop looks at the flag again; the next stop comes two iterations later\<close>
  "restart_run = do_continuous SA1 dec_float
     [(Idle, ToggleContinuous), (ToggleContinuous, Idle), (Idle, Idle), (ToggleContinuous, Idle)]
     (running_viewer (ten_ok @ one_sweep @ one_sweep @ one_sweep @ [IoOk []]))"

definition sweep_queries :: "scpi list" where
  \<comment> \<open>what one iteration of the loop sends\<close>
  "sweep_queries = [INIT, SWE_TIME_query, SWE_POIN_query, FREQ_STAR_query, FREQ_STOP_query,
     FORM_TRAC_DATA_ASCII, TRAC_DATA_query]"

fun send_all :: "instrument option \<Rightarrow> (scpi \<times> bool) list \<Rightarrow> unit act" where
  \<comment> \<open>a run of writes, each followed by the settle delay where the flag says so\<close>
  "send_all ins [] = ok ()"
| "send_all ins ((c, s) # cs) =
     bind (inst_write ins c) (\<lambda>_.
     bind (if s then sleep (1 / 10) else ok ()) (\<lambda>_. send_all ins cs))"

definition wire0 :: "io list \<Rightarrow> wire" where
  \<comment> \<open>an open session on which nothing has happened yet, with the given script\<close>
  "wire0 s =
     \<lparr>attempted = [], sent = [], script = s, slept = [], console = [], session_open = True\<rparr>"

section \<open>Properties of the frequency range\<close>

lemmas dec_float_eval = dec_float_def signed_float_def num_strip_def is_num_space_def
  unsigned_float_def mantissa_def exponent_def is_exp_mark_def is_digit_def digits_nat_def
  digit_val_def

lemmas field_float_eval = field_float_def replace_char_def dec_float_eval

lemma field_float_cases:
  "field_float flt s = Inl ValueError \<or> (\<exists>x. field_float flt s = Inr x)"
  by (simp add: field_float_def split: option.split)

lemma replace_char_idem:
  "a \<noteq> b \<Longrightarrow> replace_char a b (replace_char a b s) = replace_char a b s"
  by (induction s) (simp_all add: replace_char_def)

text \<open>
  C9. In start/stop mode two numeric fields are returned as they are; in centre/span mode
  the range is centre minus half the span to centre plus half the span; a field written
  with a comma reads as the same field written with a point.
\<close>

theorem freq_range_modes:
  "(freq_mode p \<noteq> ''center_span'' \<and> field_float flt (start_entry p) = Inr a
      \<and> field_float flt (stop_entry p) = Inr b
      \<longrightarrow> get_freq_range_for_panel flt p = Inr (a, b))
   \<and> (freq_mode p = ''center_span'' \<and> field_float flt (center_entry p) = Inr c
      \<and> field_float flt (span_entry p) = Inr w
      \<longrightarrow> get_freq_range_for_panel flt p = Inr (c - w / 2, c + w / 2))
   \<and> field_float flt t = field_float flt (replace_char (CHR '','') (CHR ''.'') t)"
proof -
  have comma: "replace_char (CHR '','') (CHR ''.'') (replace_char (CHR '','') (CHR ''.'') t)
      = replace_char (CHR '','') (CHR ''.'') t"
    by (rule replace_char_idem) simp
  show ?thesis
    by (simp add: get_freq_range_for_panel_def) (simp add: field_float_def comma)
qed

theorem freq_range_modes_witness:
  "get_freq_range_for_panel dec_float (new_panel ''192.168.60.70'') = Inr (0, 3000)
   \<and> get_freq_range_for_panel dec_float
        ((new_panel ''192.168.60.70'')\<lparr>freq_mode := ''center_span''\<rparr>) = Inr (0, 2000)
   \<and> field_float dec_float ''1,5'' = Inr (3 / 2)
   \<and> field_float dec_float ''1.5'' = Inr (3 / 2)"
proof -
  have f0: "field_float dec_float ''0'' = Inr 0"
    and f3000: "field_float dec_float ''3000'' = Inr 3000"
    and f1000: "field_float dec_float ''1000'' = Inr 1000"
    and f2000: "field_float dec_float ''2000'' = Inr 2000"
    and fdot: "field_float dec_float ''1.5'' = Inr (3 / 2)"
    by (simp_all add: field_float_eval)
  have r: "replace_char (CHR '','') (CHR ''.'') ''1,5'' = ''1.5''"
    by (simp add: replace_char_def)
  show ?thesis
    using freq_range_modes [of "new_panel ''192.168.60.70''" dec_float 0 3000 0 0 "''1,5''"]
      freq_range_modes [of "(new_panel ''192.168.60.70'')\<lparr>freq_mode := ''center_span''\<rparr>"
        dec_float 0 0 1000 2000 "''1,5''"]
    by (simp add: new_panel_def f0 f3000 f1000 f2000 fdot r)
qed

text \<open>
  C1, as the code has it. In start/stop mode the resolution fails, with ValueError, exactly
  when one of the two fields is not numeric; two numeric fields are returned whatever
  their order, so a start at or above the stop is returned too.
\<close>

theorem start_stop_range_unchecked:
  "freq_mode p \<noteq> ''center_span'' \<Longrightarrow>
     ((\<exists>e. get_freq_range_for_panel flt p = Inl e)
        = (field_float flt (start_entry p) = Inl ValueError
           \<or> field_float flt (stop_entry p) = Inl ValueError))
     \<and> (\<forall>e. get_freq_range_for_panel flt p = Inl e \<longrightarrow> e = ValueError)
     \<and> (\<forall>a b. field_float flt (start_entry p) = Inr a \<and> field_float flt (stop_entry p) = Inr b
          \<longrightarrow> get_freq_range_for_panel flt p = Inr (a, b))"
  using field_float_cases [of flt "start_entry p"] field_float_cases [of flt "stop_entry p"]
  by (auto simp add: get_freq_range_for_panel_def)

theorem start_stop_range_unchecked_witness:
  "get_freq_range_for_panel dec_float
     ((new_panel ''192.168.60.70'')\<lparr>start_entry := ''20'', stop_entry := ''10''\<rparr>) = Inr (20, 10)
   \<and> get_freq_range_for_panel dec_float
     ((new_panel ''192.168.60.70'')\<lparr>start_entry := ''abc'', stop_entry := ''10''\<rparr>)
       = Inl ValueError"
proof -
  have f20: "field_float dec_float ''20'' = Inr 20"
    and f10: "field_float dec_float ''10'' = Inr 10"
    and fabc: "field_float dec_float ''abc'' = Inl ValueError"
    by (simp_all add: field_float_eval)
  show ?thesis
    using start_stop_range_unchecked [of
        "(new_panel ''192.168.60.70'')\<lparr>start_entry := ''20'', stop_entry := ''10''\<rparr>" dec_float]
      start_stop_range_unchecked [of
        "(new_panel ''192.168.60.70'')\<lparr>start_entry := ''abc'', stop_entry := ''10''\<rparr>" dec_float]
    by (auto simp add: new_panel_def f20 f10 fabc)
qed

text \<open>
  The specification's own example: equal start and stop fields give a range, not a
  failure.
\<close>

theorem start_equal_stop_returns_range:
  "get_freq_range_for_panel dec_float
     ((new_panel ''192.168.60.70'')\<lparr>start_entry := ''10'', stop_entry := ''10''\<rparr>) = Inr (10, 10)"
  by (simp add: get_freq_range_for_panel_def new_panel_def field_float_eval)

section \<open>Properties of the configuration\<close>

lemma bind_ok_unit: "bind m (\<lambda>_. ok ()) = (m :: unit act)"
  by (rule ext) (simp add: bind_def ok_def split: prod.splits sum.splits)

lemma bind_ok_right: "bind m ok = m"
  by (rule ext) (simp add: bind_def ok_def split: prod.splits sum.splits)

lemma bind_ok_left: "bind (ok x) f = f x"
  by (rule ext) (simp add: bind_def ok_def)

lemma send_all_run:
  "send_all (Some h) cs w =
     (let k = min (length cs) (leading_ok (script w))
      in (if k < length cs then Inl VisaIOError else Inr (),
          w\<lparr>attempted := attempted w @ map fst (take (if k < length cs then Suc k else k) cs),
            sent := sent w @ map fst (take k cs),
            script := drop (if k < length cs then Suc k else k) (script w),
            slept := slept w @ map (\<lambda>_. 1 / 10) (filter snd (take k cs))\<rparr>))"
proof (induction cs arbitrary: w)
  case Nil
  then show ?case by (simp add: ok_def)
next
  case (Cons p cs)
  obtain c s where p: "p = (c, s)" by (cases p)
  show ?case
  proof (cases "script w")
    case Nil
    then show ?thesis by (simp add: p bind_def inst_write_def Let_def)
  next
    case (Cons o1 rest)
    show ?thesis
    proof (cases o1)
      case IoErr
      then show ?thesis using Cons by (simp add: p bind_def inst_write_def Let_def)
    next
      case (IoOk t)
      then show ?thesis using Cons Cons.IH
        by (simp add: p bind_def inst_write_def sleep_def sleep_fits_def ok_def Let_def)
    qed
  qed
qed

lemma configure_writes_send_all:
  assumes "(bw_res = ''auto'' \<and> rb = BAND_RES_AUTO_ON)
            \<or> (bw_res \<noteq> ''auto'' \<and> flt (expand_suffix bw_res) = Some x \<and> rb = BAND_RES x)"
    and "flt (expand_suffix bw_vid) = Some vb"
  shows "configure_writes flt (Some h) a b n bw_res bw_vid =
     send_all (Some h) [(rb, False), (FREQ_STAR a, True), (FREQ_STOP b, True),
        (FREQ_CENT ((a + b) / 2), True), (FREQ_SPAN (b - a), True), (SWE_POIN n, True),
        (BAND_VID vb, True), (DET_POS, True), (FORM_TRAC_DATA_ASCII, True)]"
  using assms
  by (auto simp add: configure_writes_def to_float_def bind_ok_unit bind_ok_right bind_ok_left)

lemma configure_sa_never_raises:
  "fst (configure_sa flt ins a b n bw_res bw_vid w) = Inr ()"
  by (simp add: configure_sa_def try_except_def print_line_def split: prod.splits sum.splits)

text \<open>
  C2, as the code has it. With both bandwidths readable, the configuration sends its nine
  commands in order up to the first write the transport refuses and nothing after it;
  the failure is printed, and the configuration returns normally whatever happens.
\<close>

theorem configure_sa_stops_at_first_failure:
  assumes res: "(bw_res = ''auto'' \<and> rb = BAND_RES_AUTO_ON)
            \<or> (bw_res \<noteq> ''auto'' \<and> flt (expand_suffix bw_res) = Some x \<and> rb = BAND_RES x)"
    and vid: "flt (expand_suffix bw_vid) = Some vb"
    and k: "k = min 9 (leading_ok (script w))"
  shows "fst (configure_sa flt (Some h) a b n bw_res bw_vid w) = Inr ()
     \<and> sent (snd (configure_sa flt (Some h) a b n bw_res bw_vid w)) =
         sent w @ take k [rb, FREQ_STAR (a * 1000000), FREQ_STOP (b * 1000000),
                   FREQ_CENT ((a * 1000000 + b * 1000000) / 2),
                   FREQ_SPAN (b * 1000000 - a * 1000000),
                   SWE_POIN n, BAND_VID vb, DET_POS, FORM_TRAC_DATA_ASCII]
     \<and> console (snd (configure_sa flt (Some h) a b n bw_res bw_vid w)) =
         console w @ (if k < 9 then [ConfigError VisaIOError] else [])"
proof -
  define cs where "cs = [(rb, False), (FREQ_STAR (a * 1000000), True),
        (FREQ_STOP (b * 1000000), True),
        (FREQ_CENT ((a * 1000000 + b * 1000000) / 2), True),
        (FREQ_SPAN (b * 1000000 - a * 1000000), True), (SWE_POIN n, True),
        (BAND_VID vb, True), (DET_POS, True), (FORM_TRAC_DATA_ASCII, True)]"
  have len: "length cs = 9"
    by (simp add: cs_def)
  have cmds: "map fst cs = [rb, FREQ_STAR (a * 1000000), FREQ_STOP (b * 1000000),
                   FREQ_CENT ((a * 1000000 + b * 1000000) / 2),
                   FREQ_SPAN (b * 1000000 - a * 1000000),
                   SWE_POIN n, BAND_VID vb, DET_POS, FORM_TRAC_DATA_ASCII]"
    by (simp add: cs_def)
  have cw: "configure_writes flt (Some h) (a * 1000000) (b * 1000000) n bw_res bw_vid
      = send_all (Some h) cs"
    unfolding cs_def by (rule configure_writes_send_all [OF res vid])
  have run: "send_all (Some h) cs w =
      (if k < 9 then Inl VisaIOError else Inr (),
       w\<lparr>attempted := attempted w @ take (if k < 9 then Suc k else k) (map fst cs),
         sent := sent w @ take k (map fst cs),
         script := drop (if k < 9 then Suc k else k) (script w),
         slept := slept w @ map (\<lambda>_. 1 / 10) (filter snd (take k cs))\<rparr>)"
    by (simp add: send_all_run len k Let_def take_map)
  show ?thesis
    by (auto simp add: configure_sa_def cw try_except_def run print_line_def cmds)
qed

lemma expand_1M: "dec_float (expand_suffix ''1M'') = Some 1000000"
  by (simp add: expand_suffix_def dec_float_eval)

theorem configure_sa_stops_at_first_failure_witness:
  "fst (configure_sa dec_float (Some \<lparr>timeout = 120000\<rparr>) 0 3000 3001 ''1M'' ''1M''
          (wire0 [IoOk [], IoOk [], IoErr, IoOk [], IoOk [], IoOk [], IoOk [], IoOk [], IoOk []]))
     = Inr ()
   \<and> sent (snd (configure_sa dec_float (Some \<lparr>timeout = 120000\<rparr>) 0 3000 3001 ''1M'' ''1M''
          (wire0 [IoOk [], IoOk [], IoErr, IoOk [], IoOk [], IoOk [], IoOk [], IoOk [], IoOk []])))
     = [BAND_RES 1000000, FREQ_STAR 0]
   \<and> console (snd (configure_sa dec_float (Some \<lparr>timeout = 120000\<rparr>) 0 3000 3001 ''1M'' ''1M''
          (wire0 [IoOk [], IoOk [], IoErr, IoOk [], IoOk [], IoOk [], IoOk [], IoOk [], IoOk []])))
     = [ConfigError VisaIOError]"
  using configure_sa_stops_at_first_failure [of "''1M''" "BAND_RES 1000000" dec_float 1000000
      "''1M''" 1000000 2
      "wire0 [IoOk [], IoOk [], IoErr, IoOk [], IoOk [], IoOk [], IoOk [], IoOk [], IoOk []]"
      "\<lparr>timeout = 120000\<rparr>" 0 3000 3001]
  by (simp add: expand_1M wire0_def)

text \<open>
  The specification's own case: the resolution-bandwidth write fails on a transport that
  would take every later write. Nothing is sent: the eight later outcomes are still
  unread.
\<close>

theorem failed_bandwidth_write_stops_configuration:
  "configure_sa dec_float (Some \<lparr>timeout = 120000\<rparr>) 0 3000 3001 ''1M'' ''1M''
     (wire0 [IoErr, IoOk [], IoOk [], IoOk [], IoOk [], IoOk [], IoOk [], IoOk [], IoOk []])
   = (Inr (), \<lparr>attempted = [BAND_RES 1000000], sent = [],
               script = [IoOk [], IoOk [], IoOk [], IoOk [], IoOk [], IoOk [], IoOk [], IoOk []],
               slept = [], console = [ConfigError VisaIOError], session_open = True\<rparr>)"
  by (simp add: configure_sa_def configure_writes_def try_except_def bind_def inst_write_def
      to_float_def ok_def print_line_def expand_1M wire0_def Let_def)

section \<open>Properties of a single sweep\<close>

lemma sleep_fits_small: "t \<le> 100 \<Longrightarrow> sleep_fits t"
  by (simp add: sleep_fits_def)

lemmas act_defs = bind_def try_except_def ok_def raise_def sleep_def sleep_fits_def print_line_def
  inst_write_def inst_read_def to_float_def to_int_def Let_def

text \<open>
  C8, as the code has it. Once the trigger mode and the trigger have been written, a single
  sweep asks for the sweep time. With a sweep time \<open>d\<close> read back it waits
  \<open>max 1.5 (1.1 d)\<close> and returns, as long as that delay is one \<^verbatim>\<open>time.sleep\<close> takes;
  a longer one makes the sweep raise OverflowError without waiting, the call being
  outside the \<^verbatim>\<open>try\<close>. When the query cannot be written, the answer cannot be read or
  the answer is not a number, the sweep time is taken as 1.5, the wait is
  \<open>max 1.5 (1.1 \<times> 1.5)\<close> and the sweep returns normally.
\<close>

theorem single_sweep_wait:
  assumes "script w = IoOk t1 # IoOk t2 # rest"
  shows "(\<forall>t3 r rest' d. rest = IoOk t3 # IoOk r # rest' \<and> flt r = Some d \<longrightarrow>
          single_sweep flt (Some h) w =
            (if sleep_fits (max (3 / 2) (d * (11 / 10)))
             then (Inr (),
                   w\<lparr>attempted := attempted w @ [INIT_CONT_OFF, INIT, SWE_TIME_query],
                     sent := sent w @ [INIT_CONT_OFF, INIT, SWE_TIME_query], script := rest',
                     slept := slept w @ [1 / 10, 15 / 100, max (3 / 2) (d * (11 / 10))]\<rparr>)
             else (Inl OverflowError,
                   w\<lparr>attempted := attempted w @ [INIT_CONT_OFF, INIT, SWE_TIME_query],
                     sent := sent w @ [INIT_CONT_OFF, INIT, SWE_TIME_query], script := rest',
                     slept := slept w @ [1 / 10, 15 / 100]\<rparr>)))
    \<and> (\<forall>t3 r rest'. rest = IoOk t3 # IoOk r # rest' \<and> flt r = None \<longrightarrow>
          single_sweep flt (Some h) w =
            (Inr (),
             w\<lparr>attempted := attempted w @ [INIT_CONT_OFF, INIT, SWE_TIME_query],
               sent := sent w @ [INIT_CONT_OFF, INIT, SWE_TIME_query], script := rest',
               slept := slept w @ [1 / 10, 15 / 100, max (3 / 2) (3 / 2 * (11 / 10))]\<rparr>))
    \<and> (\<forall>t3 rest'. rest = IoOk t3 # rest' \<and> leading_ok rest' = 0 \<longrightarrow>
          single_sweep flt (Some h) w =
            (Inr (),
             w\<lparr>attempted := attempted w @ [INIT_CONT_OFF, INIT, SWE_TIME_query],
               sent := sent w @ [INIT_CONT_OFF, INIT, SWE_TIME_query], script := tl rest',
               slept := slept w @ [1 / 10, 15 / 100, max (3 / 2) (3 / 2 * (11 / 10))]\<rparr>))
    \<and> (leading_ok rest = 0 \<longrightarrow>
          single_sweep flt (Some h) w =
            (Inr (),
             w\<lparr>attempted := attempted w @ [INIT_CONT_OFF, INIT, SWE_TIME_query],
               sent := sent w @ [INIT_CONT_OFF, INIT], script := tl rest,
               slept := slept w @ [1 / 10, max (3 / 2) (3 / 2 * (11 / 10))]\<rparr>))"
proof -
  have leading0: "\<And>s. leading_ok s = 0 \<Longrightarrow> s = [] \<or> (\<exists>r. s = IoErr # r)"
    subgoal for s by (cases s rule: leading_ok.cases) simp_all
    done
  have low: "\<And>x. \<not> max (3 / 2) x < (0::real)"
    by simp
  have b: "\<And>t3 r rest' d. rest = IoOk t3 # IoOk r # rest' \<Longrightarrow> flt r = Some d \<Longrightarrow>
          single_sweep flt (Some h) w =
            (if sleep_fits (max (3 / 2) (d * (11 / 10)))
             then (Inr (),
                   w\<lparr>attempted := attempted w @ [INIT_CONT_OFF, INIT, SWE_TIME_query],
                     sent := sent w @ [INIT_CONT_OFF, INIT, SWE_TIME_query], script := rest',
                     slept := slept w @ [1 / 10, 15 / 100, max (3 / 2) (d * (11 / 10))]\<rparr>)
             else (Inl OverflowError,
                   w\<lparr>attempted := attempted w @ [INIT_CONT_OFF, INIT, SWE_TIME_query],
                     sent := sent w @ [INIT_CONT_OFF, INIT, SWE_TIME_query], script := rest',
                     slept := slept w @ [1 / 10, 15 / 100]\<rparr>))"
    subgoal for t3 r rest' d
      using assms low [of "d * (11 / 10)"]
      by (cases "sleep_fits (max (3 / 2) (d * (11 / 10)))")
        (simp_all add: single_sweep_def bind_def try_except_def ok_def inst_write_def
          inst_read_def to_float_def Let_def sleep_def sleep_fits_small)
    done
  have c: "\<And>t3 r rest'. rest = IoOk t3 # IoOk r # rest' \<Longrightarrow> flt r = None \<Longrightarrow>
          single_sweep flt (Some h) w =
            (Inr (),
             w\<lparr>attempted := attempted w @ [INIT_CONT_OFF, INIT, SWE_TIME_query],
               sent := sent w @ [INIT_CONT_OFF, INIT, SWE_TIME_query], script := rest',
               slept := slept w @ [1 / 10, 15 / 100, max (3 / 2) (3 / 2 * (11 / 10))]\<rparr>)"
    using assms by (simp add: single_sweep_def act_defs)
  have d: "\<And>t3 rest'. rest = IoOk t3 # rest' \<Longrightarrow> leading_ok rest' = 0 \<Longrightarrow>
          single_sweep flt (Some h) w =
            (Inr (),
             w\<lparr>attempted := attempted w @ [INIT_CONT_OFF, INIT, SWE_TIME_query],
               sent := sent w @ [INIT_CONT_OFF, INIT, SWE_TIME_query], script := tl rest',
               slept := slept w @ [1 / 10, 15 / 100, max (3 / 2) (3 / 2 * (11 / 10))]\<rparr>)"
    subgoal for t3 rest'
      using assms leading0 [of rest'] by (auto simp add: single_sweep_def act_defs)
    done
  have e: "leading_ok rest = 0 \<Longrightarrow>
          single_sweep flt (Some h) w =
            (Inr (),
             w\<lparr>attempted := attempted w @ [INIT_CONT_OFF, INIT, SWE_TIME_query],
               sent := sent w @ [INIT_CONT_OFF, INIT], script := tl rest,
               slept := slept w @ [1 / 10, max (3 / 2) (3 / 2 * (11 / 10))]\<rparr>)"
    using assms leading0 [of rest] by (auto simp add: single_sweep_def act_defs)
  show ?thesis using b c d e by blast
qed

theorem single_sweep_wait_witness:
  "fst (single_sweep dec_float (Some \<lparr>timeout = 120000\<rparr>)
         (wire0 [IoOk [], IoOk [], IoOk [], IoOk ''2.0''])) = Inr ()
   \<and> slept (snd (single_sweep dec_float (Some \<lparr>timeout = 120000\<rparr>)
         (wire0 [IoOk [], IoOk [], IoOk [], IoOk ''2.0'']))) = [1 / 10, 15 / 100, 22 / 10]
   \<and> fst (single_sweep dec_float (Some \<lparr>timeout = 120000\<rparr>)
         (wire0 [IoOk [], IoOk [], IoOk [], IoOk ''n/a''])) = Inr ()
   \<and> slept (snd (single_sweep dec_float (Some \<lparr>timeout = 120000\<rparr>)
         (wire0 [IoOk [], IoOk [], IoOk [], IoOk ''n/a'']))) = [1 / 10, 15 / 100, 165 / 100]
   \<and> single_sweep dec_float (Some \<lparr>timeout = 120000\<rparr>) (wire0 [IoOk [], IoOk [], IoOk [], IoErr])
       = (Inr (), \<lparr>attempted = [INIT_CONT_OFF, INIT, SWE_TIME_query],
                   sent = [INIT_CONT_OFF, INIT, SWE_TIME_query], script = [],
                   slept = [1 / 10, 15 / 100, 165 / 100], console = [], session_open = True\<rparr>)
   \<and> single_sweep dec_float (Some \<lparr>timeout = 120000\<rparr>) (wire0 [IoOk [], IoOk [], IoErr])
       = (Inr (), \<lparr>attempted = [INIT_CONT_OFF, INIT, SWE_TIME_query],
                   sent = [INIT_CONT_OFF, INIT], script = [],
                   slept = [1 / 10, 165 / 100], console = [], session_open = True\<rparr>)"
proof -
  have p: "dec_float ''2.0'' = Some 2" and q: "dec_float ''n/a'' = None"
    by (simp_all add: dec_float_eval)
  show ?thesis
    using single_sweep_wait [of "wire0 [IoOk [], IoOk [], IoOk [], IoOk ''2.0'']" "[]" "[]"
        "[IoOk [], IoOk ''2.0'']" dec_float "\<lparr>timeout = 120000\<rparr>"]
      single_sweep_wait [of "wire0 [IoOk [], IoOk [], IoOk [], IoOk ''n/a'']" "[]" "[]"
        "[IoOk [], IoOk ''n/a'']" dec_float "\<lparr>timeout = 120000\<rparr>"]
      single_sweep_wait [of "wire0 [IoOk [], IoOk [], IoOk [], IoErr]" "[]" "[]"
        "[IoOk [], IoErr]" dec_float "\<lparr>timeout = 120000\<rparr>"]
      single_sweep_wait [of "wire0 [IoOk [], IoOk [], IoErr]" "[]" "[]"
        "[IoErr]" dec_float "\<lparr>timeout = 120000\<rparr>"]
    by (simp add: p q sleep_fits_small wire0_def)
qed

text \<open>
  An instrument that reports a sweep time of \<open>1e10\<close> seconds: the wait would be
  \<open>1.1e10\<close> seconds, \<^verbatim>\<open>time.sleep\<close> refuses it, and the sweep raises after the two
  settle delays instead of waiting.
\<close>

theorem huge_sweep_time_raises:
  "single_sweep dec_float (Some \<lparr>timeout = 120000\<rparr>)
     (wire0 [IoOk [], IoOk [], IoOk [], IoOk ''1e10''])
   = (Inl OverflowError,
      \<lparr>attempted = [INIT_CONT_OFF, INIT, SWE_TIME_query],
       sent = [INIT_CONT_OFF, INIT, SWE_TIME_query], script = [],
       slept = [1 / 10, 15 / 100], console = [], session_open = True\<rparr>)"
proof -
  have p: "dec_float ''1e10'' = Some 10000000000"
    by (simp add: dec_float_eval)
  show ?thesis
    by (simp add: single_sweep_def act_defs p wire0_def)
qed

section \<open>Properties of trace decoding\<close>

declare dec.simps [simp del]

lemma dec_small: "n < 10 \<Longrightarrow> dec n = [char_of (48 + n)]"
  by (subst dec.simps) simp

lemma is_digit_char_of: "(d::nat) < 10 \<Longrightarrow> is_digit (char_of (48 + d))"
  by (simp add: is_digit_def)

lemma digit_val_char_of: "(d::nat) < 10 \<Longrightarrow> digit_val (char_of (48 + d)) = d"
  by (simp add: digit_val_def)

lemma dec_digits: "list_all is_digit (dec n)"
proof (induction n rule: dec.induct)
  case (1 n)
  show ?case
  proof (cases "n < 10")
    case True
    then show ?thesis by (simp add: dec_small is_digit_char_of)
  next
    case False
    then have "dec n = dec (n div 10) @ [char_of (48 + n mod 10)]"
      by (subst dec.simps) simp
    with 1 False show ?thesis
      by (simp add: is_digit_char_of)
  qed
qed

lemma dec_nonempty: "dec n \<noteq> []"
  by (subst dec.simps) simp

lemma digits_nat_append: "digits_nat (xs @ [c]) = 10 * digits_nat xs + digit_val c"
  by (simp add: digits_nat_def)

lemma digits_nat_dec: "digits_nat (dec n) = n"
proof (induction n rule: dec.induct)
  case (1 n)
  show ?case
  proof (cases "n < 10")
    case True
    then show ?thesis by (simp add: dec_small digits_nat_def digit_val_char_of)
  next
    case False
    then have "dec n = dec (n div 10) @ [char_of (48 + n mod 10)]"
      by (subst dec.simps) simp
    with 1 False show ?thesis
      by (simp add: digits_nat_append digit_val_char_of)
  qed
qed

lemma int_rest_digits:
  "list_all is_digit ds \<Longrightarrow> int_rest acc ds = Some (foldl (\<lambda>a c. 10 * a + digit_val c) acc ds)"
  by (induction acc ds rule: int_rest.induct) simp_all

lemma int_digits_digits:
  "list_all is_digit ds \<Longrightarrow> ds \<noteq> [] \<Longrightarrow> int_digits ds = Some (digits_nat ds)"
  by (cases ds) (simp_all add: int_digits_def int_rest_digits digits_nat_def)

lemma digit_not_space: "is_digit c \<Longrightarrow> \<not> is_space c"
  by (auto simp add: is_digit_def is_space_def Let_def)

lemma num_space_is_space: "is_num_space c \<Longrightarrow> is_space c"
  by (auto simp add: is_num_space_def is_space_def Let_def)

lemma digit_not_num_space: "is_digit c \<Longrightarrow> \<not> is_num_space c"
  using digit_not_space num_space_is_space by blast

lemma digit_not_sign: "is_digit c \<Longrightarrow> c \<noteq> CHR ''-'' \<and> c \<noteq> CHR ''+''"
  by (auto simp add: is_digit_def)

lemma dropWhile_hd: "s \<noteq> [] \<Longrightarrow> \<not> P (hd s) \<Longrightarrow> dropWhile P s = s"
  by (cases s) simp_all

lemma py_int_digits:
  assumes "list_all is_digit ds" "ds \<noteq> []"
  shows "py_int ds = Some (int (digits_nat ds))"
proof -
  have h: "is_digit (hd ds)" and l: "is_digit (last ds)"
    using assms by (auto simp add: list_all_iff)
  have 1: "dropWhile is_num_space ds = ds"
    using assms h by (simp add: dropWhile_hd digit_not_num_space)
  have 2: "dropWhile is_num_space (rev ds) = rev ds"
    using assms l by (simp add: dropWhile_hd hd_rev digit_not_num_space)
  have "num_strip ds = ds"
    by (simp add: num_strip_def 1 2)
  then show ?thesis
    using assms h digit_not_sign [of "hd ds"]
    by (cases ds) (simp_all add: py_int_def int_digits_digits)
qed

lemma py_int_dec: "py_int (dec n) = Some (int n)"
  by (simp add: py_int_digits dec_digits dec_nonempty digits_nat_dec)

lemma rstrip_Cons:
  "rstrip (x # s) = (if rstrip s = [] \<and> is_space x then [] else x # rstrip s)"
  by (auto simp add: rstrip_def dropWhile_append dropWhile_eq_Nil_conv)

lemma strip_as_rstrip: "strip s = dropWhile is_space (rstrip s)"
proof -
  have "rstrip (dropWhile is_space s) = dropWhile is_space (rstrip s)"
  proof (induction s)
    case Nil
    then show ?case by (simp add: rstrip_def)
  next
    case (Cons x s)
    then show ?case by (simp add: rstrip_Cons)
  qed
  then show ?thesis by (simp add: strip_def rstrip_def)
qed

lemma length_rstrip: "length (rstrip s) \<le> length s"
  by (simp add: rstrip_def length_dropWhile_le [of is_space "rev s", simplified])

lemma rstrip_append_nonspace:
  assumes "h \<noteq> []" "\<not> is_space (last h)"
  shows "rstrip (h @ s) = h @ rstrip s"
proof -
  have "dropWhile is_space (rev h) = rev h"
    using assms by (simp add: dropWhile_hd hd_rev)
  then show ?thesis
    by (auto simp add: rstrip_def dropWhile_append)
qed

lemma strip_frame:
  assumes "L \<noteq> []" "list_all is_digit L"
  shows "strip (frame_block L p) = CHR ''#'' # dec (length L) @ L @ rstrip p"
proof -
  let ?h = "CHR ''#'' # dec (length L) @ L"
  have fb: "frame_block L p = ?h @ p"
    by (simp add: frame_block_def)
  have "is_digit (last L)"
    using assms by (simp add: list_all_iff)
  then have l: "\<not> is_space (last ?h)"
    using assms by (simp add: digit_not_space)
  have "rstrip (?h @ p) = ?h @ rstrip p"
    using l by (intro rstrip_append_nonspace) simp_all
  moreover have "\<not> is_space (CHR ''#'')"
    by (simp add: is_space_def)
  ultimately show ?thesis
    unfolding strip_as_rstrip fb by simp
qed

lemma py_slice_middle:
  "py_slice (xs @ ys @ zs) (int (length xs)) (int (length xs) + int (length ys)) = ys"
  by (simp add: py_slice_def Let_def min_def)

lemma py_slice_tail:
  "length ys \<le> m \<Longrightarrow> py_slice (xs @ ys) (int (length xs)) (int (length xs) + int m) = ys"
  by (simp add: py_slice_def Let_def min_def)

lemma data_region_header:
  assumes "L \<noteq> []" "length L < 10" "list_all is_digit L" "digits_nat L = length p"
    and "length q \<le> length p"
  shows "data_region (CHR ''#'' # dec (length L) @ L @ q) = Inr q"
proof -
  let ?N = "length L"
  let ?c = "char_of (48 + ?N) :: char"
  let ?raw = "CHR ''#'' # dec ?N @ L @ q"
  have dN: "dec ?N = [?c]"
    using assms(2) by (rule dec_small)
  have item: "py_item ?raw 1 = Inr ?c"
    by (simp add: py_item_def dN)
  have n: "py_int [?c] = Some (int ?N)"
    using py_int_dec [of ?N] by (simp add: dN)
  have s1: "py_slice ?raw 2 (2 + int ?N) = L"
    using py_slice_middle [of "[CHR ''#'', ?c]" L q]
    by (simp add: dN)
  have len: "py_int L = Some (int (length p))"
    using py_int_digits [OF assms(3) assms(1)] assms(4) by simp
  have s2: "py_slice ?raw (2 + int ?N) (2 + int ?N + int (length p)) = q"
    using py_slice_tail [OF assms(5), of "CHR ''#'' # ?c # L"]
    by (simp add: dN)
  have hash: "startswith_hash ?raw"
    by (simp add: startswith_hash_def)
  show ?thesis
    unfolding data_region_def
    by (simp only: hash item n s1 s2 len sum.case option.case if_True)
qed

lemma strip_space_Cons: "is_space x \<Longrightarrow> strip (x # t) = strip t"
  by (simp add: strip_def)

lemma comma_not_space: "\<not> is_space (CHR '','')"
  by (simp add: is_space_def)

lemma split_on_nonempty: "split_on c s \<noteq> []"
  by (induction s) (simp_all split: list.splits)

lemma parts_lead:
  assumes flt: "\<forall>c s. is_num_space c \<longrightarrow> flt (c # s) = flt s"
  shows "list_all is_num_space (takeWhile is_space q) \<Longrightarrow>
     map flt (filter (\<lambda>p. strip p \<noteq> []) (split_on (CHR '','') (dropWhile is_space q)))
       = map flt (filter (\<lambda>p. strip p \<noteq> []) (split_on (CHR '','') q))"
proof (induction q)
  case Nil
  then show ?case by simp
next
  case (Cons x q)
  show ?case
  proof (cases "is_space x")
    case False
    then show ?thesis by simp
  next
    case True
    then have nc: "x \<noteq> CHR '',''"
      using comma_not_space by auto
    have ns: "is_num_space x" and tl: "list_all is_num_space (takeWhile is_space q)"
      using Cons.prems True by simp_all
    obtain t ts where sp: "split_on (CHR '','') q = t # ts"
      using split_on_nonempty [of "CHR '',''" q] by (cases "split_on (CHR '','') q") auto
    have f: "flt (x # t) = flt t"
      using flt ns by simp
    show ?thesis
      using True Cons.IH [OF tl] by (simp add: nc sp strip_space_Cons f)
  qed
qed

lemma lead_rstrip:
  "list_all P (takeWhile is_space p) \<Longrightarrow> list_all P (takeWhile is_space (rstrip p))"
proof (induction p)
  case Nil
  then show ?case by (simp add: rstrip_def)
next
  case (Cons x p)
  then show ?case by (simp add: rstrip_Cons split: if_splits)
qed

lemma drop_underscores_prev:
  assumes "\<not> is_digit a" "a \<noteq> CHR ''_''" "\<not> is_digit b" "b \<noteq> CHR ''_''"
  shows "drop_underscores a s = drop_underscores b s"
  using assms by (cases s) simp_all

lemma dec_float_lead:
  assumes "is_num_space c"
  shows "dec_float (c # s) = dec_float s"
proof -
  have c: "\<not> is_digit c" "c \<noteq> CHR ''_''"
    using assms by (auto simp add: is_num_space_def is_digit_def Let_def)
  have z: "\<not> is_digit (CHR 0x00)" "CHR 0x00 \<noteq> CHR ''_''"
    by (simp_all add: is_digit_def)
  have d: "drop_underscores (CHR 0x00) (c # s) = map_option (Cons c) (drop_underscores (CHR 0x00) s)"
    using c drop_underscores_prev [OF c z, of s] by simp
  have n: "\<And>t. num_strip (c # t) = num_strip t"
    using assms by (simp add: num_strip_def)
  show ?thesis
  proof (cases "drop_underscores (CHR 0x00) s")
    case None
    then show ?thesis unfolding dec_float_def d by simp
  next
    case (Some t)
    then show ?thesis unfolding dec_float_def d by (simp add: n)
  qed
qed

text \<open>
  C5, as the code has it. The header is \<open>#\<close>, one digit for the number of digits of the
  length field, and a length field of that many digits whose value is the length of the
  payload. The data region sliced from the framed block is the payload. A payload that
  is not itself taken for a header decodes to the same trace, with the same warning,
  bare or framed, when the whitespace it begins with, if any, is whitespace that
  \<^verbatim>\<open>float\<close> skips: a bare response loses its leading whitespace to \<^verbatim>\<open>strip\<close>, a
  framed payload keeps it and hands it to \<^verbatim>\<open>float\<close> with the first value.
\<close>

theorem framed_decodes_as_bare:
  assumes nonempty: "L \<noteq> []"
    and one_digit: "length L < 10"
    and digits: "list_all is_digit L"
    and exact: "digits_nat L = length p"
    and bare: "\<not> startswith_hash (strip p)"
    and lead: "list_all is_num_space (takeWhile is_space p)"
    and flt: "\<forall>c s. is_num_space c \<longrightarrow> flt (c # s) = flt s"
  shows "data_region (frame_block L p) = Inr p
    \<and> decode_block flt points a b (frame_block L p) w = decode_block flt points a b p w"
proof -
  have whole: "data_region (frame_block L p) = Inr p"
    unfolding frame_block_def
    by (rule data_region_header [OF nonempty one_digit digits exact]) simp
  have stripped: "data_region (strip (frame_block L p)) = Inr (rstrip p)"
    unfolding strip_frame [OF nonempty digits]
    by (rule data_region_header [OF nonempty one_digit digits exact]) (rule length_rstrip)
  have sp: "strip p = dropWhile is_space (rstrip p)"
    by (rule strip_as_rstrip)
  have h1: "parse_amplitudes flt (strip p) = parse_amplitudes flt (rstrip p)"
    using parts_lead [OF flt lead_rstrip [OF lead]] by (simp only: parse_amplitudes_def sp)
  have h2: "data_region (strip p) = Inr (strip p)"
    using bare by (simp add: data_region_def)
  show ?thesis
    by (simp add: decode_block_def whole stripped h1 h2)
qed

theorem framed_decodes_as_bare_witness:
  "frame_block ''009'' (CHR '' '' # ''-1,-2.5'' @ [CHR 0x0A]) = ''#3009 -1,-2.5'' @ [CHR 0x0A]
   \<and> data_region (''#3009 -1,-2.5'' @ [CHR 0x0A]) = Inr (CHR '' '' # ''-1,-2.5'' @ [CHR 0x0A])
   \<and> decode_block dec_float 2 0 10 (''#3009 -1,-2.5'' @ [CHR 0x0A]) (wire0 [])
     = (Inr ([0, 10], [- 1, - (5 / 2)]), wire0 [])
   \<and> decode_block dec_float 2 0 10 (CHR '' '' # ''-1,-2.5'' @ [CHR 0x0A]) (wire0 [])
     = (Inr ([0, 10], [- 1, - (5 / 2)]), wire0 [])"
proof -
  let ?p = "CHR '' '' # ''-1,-2.5'' @ [CHR 0x0A]"
  have d3: "dec (Suc (Suc (Suc 0))) = ''3''"
    using char_of_char [of "CHR ''3''"] by (simp add: dec_small)
  have t1: "dec_float ''-1'' = Some (- 1)" and t2: "dec_float ''-2.5'' = Some (- (5 / 2))"
    by (simp_all add: dec_float_eval)
  have st: "strip ?p = ''-1,-2.5''"
    by (simp add: strip_def is_space_def)
  have bare: "decode_block dec_float 2 0 10 ?p (wire0 [])
     = (Inr ([0, 10], [- 1, - (5 / 2)]), wire0 [])"
    by (simp add: decode_block_def st data_region_def startswith_hash_def parse_amplitudes_def
        strip_def is_space_def t1 t2 bind_def ok_def linspace_def)
  have fb: "frame_block ''009'' ?p = ''#3009 -1,-2.5'' @ [CHR 0x0A]"
    by (simp add: frame_block_def d3)
  have l: "''009'' \<noteq> []" "length ''009'' < 10" "list_all is_digit ''009''"
    "digits_nat ''009'' = length ?p"
    by (simp_all add: is_digit_def digits_nat_def digit_val_def)
  have h: "\<not> startswith_hash (strip ?p)"
    unfolding st by (simp add: startswith_hash_def)
  have ld: "list_all is_num_space (takeWhile is_space ?p)"
    by (simp add: is_space_def is_num_space_def)
  have f: "\<forall>c s. is_num_space c \<longrightarrow> dec_float (c # s) = dec_float s"
    by (simp add: dec_float_lead)
  show ?thesis
    using framed_decodes_as_bare [OF l h ld f, of 2 0 10 "wire0 []"] bare fb
    by simp
qed

text \<open>
  A payload that begins with a character \<^verbatim>\<open>strip\<close> removes and \<^verbatim>\<open>float\<close> does not
  skip, the separator with code 28: the bare response decodes to two values, the
  framed one raises ValueError.
\<close>

theorem framed_separator_payload_fails:
  "frame_block ''4'' (CHR 0x1C # ''1,2'') = ''#14'' @ CHR 0x1C # ''1,2''
   \<and> decode_block dec_float 2 0 10 (CHR 0x1C # ''1,2'') (wire0 [])
     = (Inr ([0, 10], [1, 2]), wire0 [])
   \<and> decode_block dec_float 2 0 10 (''#14'' @ CHR 0x1C # ''1,2'') (wire0 [])
     = (Inl ValueError, wire0 [])"
proof -
  have d1: "dec (Suc 0) = ''1''"
    using char_of_char [of "CHR ''1''"] by (simp add: dec_small)
  have t: "dec_float ''1'' = Some 1" "dec_float ''2'' = Some 2"
    "dec_float (CHR 0x1C # ''1'') = None"
    by (simp_all add: dec_float_eval)
  let ?f = "CHR ''#'' # CHR ''1'' # CHR ''4'' # CHR 0x1C # ''1,2''"
  have st: "strip (CHR 0x1C # ''1,2'') = ''1,2''" "strip ?f = ?f"
    "strip (CHR 0x1C # ''1'') = ''1''" "strip ''1'' = ''1''" "strip ''2'' = ''2''"
    by (simp_all add: strip_def is_space_def)
  have i: "py_int ''1'' = Some 1" "py_int ''4'' = Some 4"
    by (simp_all add: py_int_def num_strip_def is_num_space_def int_digits_def is_digit_def
        digit_val_def)
  have fb: "frame_block ''4'' (CHR 0x1C # ''1,2'') = ''#14'' @ CHR 0x1C # ''1,2''"
    by (simp add: frame_block_def d1)
  have bare: "decode_block dec_float 2 0 10 (CHR 0x1C # ''1,2'') (wire0 [])
     = (Inr ([0, 10], [1, 2]), wire0 [])"
    by (simp add: decode_block_def st data_region_def startswith_hash_def parse_amplitudes_def t
        bind_def ok_def linspace_def)
  have dr: "data_region ?f = Inr (CHR 0x1C # ''1,2'')"
    by (simp add: data_region_def startswith_hash_def py_item_def i py_slice_def)
  have framed: "decode_block dec_float 2 0 10 ?f (wire0 []) = (Inl ValueError, wire0 [])"
    by (simp add: decode_block_def st dr parse_amplitudes_def t raise_def)
  show ?thesis
    using fb bare framed by simp
qed

lemma linspace_length: "length (linspace a b n) = n"
  by (simp add: linspace_def)

lemma linspace_nth:
  "i < n \<Longrightarrow> linspace a b n ! i = a + real i * ((b - a) / real (n - 1))"
  by (auto simp add: linspace_def)

lemma linspace_ends:
  assumes "2 \<le> n"
  shows "hd (linspace a b n) = a \<and> last (linspace a b n) = b"
proof -
  have n0: "linspace a b n \<noteq> []"
    using assms linspace_length [of a b n] by auto
  have "hd (linspace a b n) = linspace a b n ! 0"
    using n0 by (simp add: hd_conv_nth)
  then have h: "hd (linspace a b n) = a"
    using assms by (simp add: linspace_nth)
  have "last (linspace a b n) = linspace a b n ! (n - 1)"
    using n0 by (simp add: last_conv_nth linspace_length)
  then have l: "last (linspace a b n) = b"
    using assms by (simp add: linspace_nth)
  show ?thesis using h l by simp
qed

text \<open>
  C6. Whenever the data region is found and every value parses, decoding returns the
  trace: the amplitudes, and as many frequencies as amplitudes were parsed, the
  \<open>i\<close>-th being \<open>start + i (stop - start) / (count - 1)\<close>; with two or more values
  the first is the start and the last is the stop (a single value gets the start alone).
  A count that differs from the declared number of points only adds a console line.
\<close>

theorem decoded_axis:
  assumes "data_region (strip response) = Inr data"
    and "parse_amplitudes flt data = Inr vals"
  shows "decode_block flt points a b response w =
          (Inr (linspace a b (length vals), vals),
           w\<lparr>console := console w @
               (if int (length vals) \<noteq> points then [PointsWarning points (length vals)] else [])\<rparr>)
    \<and> length (linspace a b (length vals)) = length vals
    \<and> (\<forall>i < length vals.
          linspace a b (length vals) ! i = a + real i * ((b - a) / real (length vals - 1)))
    \<and> (2 \<le> length vals \<longrightarrow>
          hd (linspace a b (length vals)) = a \<and> last (linspace a b (length vals)) = b)"
  using assms
  by (simp add: decode_block_def bind_def print_line_def ok_def linspace_length linspace_nth
      linspace_ends)

theorem decoded_axis_witness:
  "decode_block dec_float 3001 0 10 ''#211-1,-2.5 ,7, '' (wire0 [])
     = (Inr ([0, 5, 10], [- 1, - (5 / 2), 7]), (wire0 [])\<lparr>console := [PointsWarning 3001 3]\<rparr>)"
proof -
  have t1: "dec_float ''-1'' = Some (- 1)" and t2: "dec_float ''-2.5 '' = Some (- (5 / 2))"
    and t3: "dec_float ''7'' = Some 7"
    by (simp_all add: dec_float_eval)
  have st: "strip ''#211-1,-2.5 ,7, '' = ''#211-1,-2.5 ,7,''"
    by (simp add: strip_def is_space_def)
  have one: "py_int ''2'' = Some 2" and two: "py_int ''11'' = Some 11"
    by (simp_all add: py_int_def num_strip_def is_num_space_def int_digits_def is_digit_def digit_val_def)
  have dr: "data_region (strip ''#211-1,-2.5 ,7, '') = Inr ''-1,-2.5 ,7,''"
    by (simp add: st data_region_def startswith_hash_def py_item_def one two py_slice_def)
  have pa: "parse_amplitudes dec_float ''-1,-2.5 ,7,'' = Inr [- 1, - (5 / 2), 7]"
    by (simp add: parse_amplitudes_def strip_def is_space_def t1 t2 t3)
  have ls: "linspace 0 10 (Suc (Suc (Suc 0))) = [0, 5, 10]"
    by (simp add: linspace_def upt_rec)
  show ?thesis
    using decoded_axis [OF dr pa, of 3001 0 10 "wire0 []"]
    by (simp add: ls wire0_def)
qed

section \<open>Properties of the peak hold\<close>

lemma sess_put_same: "sess k (put k s v) = s"
  by (cases k) (simp_all add: sess_def put_def)

lemma sess_put_other: "sess (other k) (put k s v) = sess (other k) v"
  by (cases k) (simp_all add: sess_def put_def other_def)

lemma rm_put: "rm (put k s v) = rm v"
  by (cases k) (simp_all add: put_def)

lemma np_maximum_length: "length xs = length ys \<Longrightarrow> length (np_maximum xs ys) = length ys"
  by (simp add: np_maximum_def)

lemma np_maximum_nth:
  "length xs = length ys \<Longrightarrow> i < length ys \<Longrightarrow> np_maximum xs ys ! i = max (xs ! i) (ys ! i)"
  by (simp add: np_maximum_def)

lemma update_plot_session_held:
  "max_vals (snd (update_plot_session freqs vals s)) = max_vals (hold_peak freqs vals s)
   \<and> max_freqs (snd (update_plot_session freqs vals s)) = max_freqs (hold_peak freqs vals s)"
  by (simp add: update_plot_session_def Let_def split: prod.splits)

text \<open>
  C4. An update with no held trace, or with a held trace of another length, holds the
  incoming amplitudes and frequency axis. Otherwise every held amplitude becomes the
  larger of itself and the incoming one, and the held axis stays. After a reset the next
  update holds the incoming trace.
\<close>

theorem peak_hold_update:
  "((max_vals s = None \<or> max_freqs s = None
       \<or> (\<exists>mv. max_vals s = Some mv \<and> length mv \<noteq> length vals))
      \<longrightarrow> max_vals (snd (update_plot_session freqs vals s)) = Some vals
          \<and> max_freqs (snd (update_plot_session freqs vals s)) = Some freqs)
   \<and> (\<forall>mv mf. max_vals s = Some mv \<and> max_freqs s = Some mf \<and> length mv = length vals
      \<longrightarrow> max_vals (snd (update_plot_session freqs vals s)) = Some (np_maximum mv vals)
          \<and> length (np_maximum mv vals) = length vals
          \<and> (\<forall>i < length vals. np_maximum mv vals ! i = max (mv ! i) (vals ! i))
          \<and> max_freqs (snd (update_plot_session freqs vals s)) = Some mf)
   \<and> max_vals (sess k (update_plot k freqs vals (reset_peak k v))) = Some vals
   \<and> max_freqs (sess k (update_plot k freqs vals (reset_peak k v))) = Some freqs"
proof -
  have a: "(max_vals s = None \<or> max_freqs s = None
       \<or> (\<exists>mv. max_vals s = Some mv \<and> length mv \<noteq> length vals))
      \<longrightarrow> max_vals (hold_peak freqs vals s) = Some vals
          \<and> max_freqs (hold_peak freqs vals s) = Some freqs"
    by (auto simp add: hold_peak_def reinit_peak_def split: option.splits)
  have b: "\<forall>mv mf. max_vals s = Some mv \<and> max_freqs s = Some mf \<and> length mv = length vals
      \<longrightarrow> max_vals (hold_peak freqs vals s) = Some (np_maximum mv vals)
          \<and> max_freqs (hold_peak freqs vals s) = Some mf"
    by (auto simp add: hold_peak_def)
  have c: "max_vals (hold_peak freqs vals (sess k (reset_peak k v))) = Some vals
      \<and> max_freqs (hold_peak freqs vals (sess k (reset_peak k v))) = Some freqs"
    by (simp add: reset_peak_def Let_def sess_put_same hold_peak_def reinit_peak_def)
  show ?thesis
    using a b c
    by (auto simp add: update_plot_session_held update_plot_def sess_put_same np_maximum_length
        np_maximum_nth)
qed

theorem peak_hold_update_witness:
  "max_vals (snd (update_plot_session [0, 5, 10] [0, 5, 1]
       (snd (update_plot_session [0, 5, 10] [1, 2, 3] (new_session ''192.168.60.70'' [])))))
     = Some [1, 5, 3]
   \<and> max_vals (sess SA1 (update_plot SA1 [7] [9] (reset_peak SA1
        (update_plot SA1 [0, 5, 10] [1, 2, 3] (new_viewer [] []))))) = Some [9]
   \<and> max_vals (snd (update_plot_session [0, 10] [4, 4]
       (snd (update_plot_session [0, 5, 10] [1, 2, 3] (new_session ''192.168.60.70'' [])))))
     = Some [4, 4]"
proof -
  let ?s1 = "snd (update_plot_session [0, 5, 10] [1, 2, 3] (new_session ''192.168.60.70'' []))"
  have first: "max_vals ?s1 = Some [1, 2, 3] \<and> max_freqs ?s1 = Some [0, 5, 10]"
    using peak_hold_update [of "new_session ''192.168.60.70'' []" "[1, 2, 3]" "[0, 5, 10]"]
    by (simp add: new_session_def)
  have m: "np_maximum [1, 2, 3] [0, 5, 1] = [1, 5, 3]"
    by (simp add: np_maximum_def)
  show ?thesis
    using first m
      peak_hold_update [of ?s1 "[0, 5, 1]" "[0, 5, 10]"]
      peak_hold_update [of ?s1 "[4, 4]" "[0, 10]"]
      peak_hold_update [of ?s1 "[9]" "[7]" SA1 "update_plot SA1 [0, 5, 10] [1, 2, 3] (new_viewer [] [])"]
    by simp
qed

section \<open>Properties of connecting\<close>

text \<open>
  C10, as the code has it. Connecting with a non-empty address an analyser that is
  connected disconnects it: the running flag is cleared, the transport is closed (a
  failing close is ignored), the handle is dropped, the panel shows the analyser as
  disconnected, the peak hold is discarded and the plot is cleared. Nothing is written to
  the instrument, no dialog is shown, and the other analyser and the resource manager are
  as before.
\<close>

theorem connect_when_connected:
  assumes "ip \<noteq> []" and "inst (sess k v) \<noteq> None"
  shows "inst (sess k (connect k ip v)) = None
    \<and> \<not> continuous (sess k (connect k ip v))
    \<and> \<not> continuous_active (sa_panel (sess k (connect k ip v)))
    \<and> \<not> shown_connected (sa_panel (sess k (connect k ip v)))
    \<and> message (sa_panel (sess k (connect k ip v))) = (''Disconnected'', False)
    \<and> max_vals (sess k (connect k ip v)) = None
    \<and> max_freqs (sess k (connect k ip v)) = None
    \<and> sa_plot (sess k (connect k ip v)) = new_plot
    \<and> dialogs (sess k (connect k ip v)) = dialogs (sess k v)
    \<and> workers (sess k (connect k ip v)) = workers (sess k v)
    \<and> sent (wire (sess k (connect k ip v))) = sent (wire (sess k v))
    \<and> attempted (wire (sess k (connect k ip v))) = attempted (wire (sess k v))
    \<and> script (wire (sess k (connect k ip v))) = tl (script (wire (sess k v)))
    \<and> ((\<exists>t r. script (wire (sess k v)) = IoOk t # r)
         \<longrightarrow> \<not> session_open (wire (sess k (connect k ip v))))
    \<and> sess (other k) (connect k ip v) = sess (other k) v
    \<and> rm (connect k ip v) = rm v"
  using assms
  by (auto simp add: connect_def Let_def sess_put_same sess_put_other rm_put disconnect_session_def
      on_wire_def set_message_def set_connected_def set_continuous_active_def clear_def
      try_except_def inst_close_def ok_def split: prod.splits list.splits io.splits)

lemma connected_viewer_sa1:
  "inst (sa1 connected_viewer) = Some \<lparr>timeout = 120000\<rparr>
   \<and> session_open (wire (sa1 connected_viewer))
   \<and> script (wire (sa1 connected_viewer)) = [IoOk []]
   \<and> sent (wire (sa1 connected_viewer)) = [IDN_query]
   \<and> shown_connected (sa_panel (sa1 connected_viewer))
   \<and> dialogs (sa1 connected_viewer) = []"
  by (simp add: connected_viewer_def connect1_def connect_def new_viewer_def new_session_def
      sess_def put_def open_session_def get_rm_def on_wire_def open_resource_def identify_def
      act_defs strip_def is_space_def set_message_def set_connected_def new_panel_def)

text \<open>
  With an empty address the method stops at its first check: the analyser stays connected
  and an error dialog is shown.
\<close>

theorem connect_empty_address_keeps_connection:
  "inst (sa1 (connect1 [] connected_viewer)) = Some \<lparr>timeout = 120000\<rparr>
   \<and> session_open (wire (sa1 (connect1 [] connected_viewer)))
   \<and> shown_connected (sa_panel (sa1 (connect1 [] connected_viewer)))
   \<and> dialogs (sa1 (connect1 [] connected_viewer)) = [InvalidAddress]"
  using connected_viewer_sa1
  by (simp add: connect1_def connect_def sess_def put_def)

theorem connect_when_connected_witness:
  "inst (sa1 (connect1 ''192.168.60.70'' connected_viewer)) = None
   \<and> \<not> session_open (wire (sa1 (connect1 ''192.168.60.70'' connected_viewer)))
   \<and> \<not> shown_connected (sa_panel (sa1 (connect1 ''192.168.60.70'' connected_viewer)))
   \<and> sent (wire (sa1 (connect1 ''192.168.60.70'' connected_viewer))) = [IDN_query]
   \<and> sa2 (connect1 ''192.168.60.70'' connected_viewer) = sa2 connected_viewer"
  using connected_viewer_sa1 connect_when_connected [of "''192.168.60.70''" SA1 connected_viewer]
  by (simp add: connect1_def sess_def other_def)

section \<open>Properties of continuous sweeps\<close>

lemma loop_append:
  "running_after k flt es n v = Some (n', v') \<Longrightarrow>
     continuous_loop k flt (es @ rest) n v = continuous_loop k flt rest n' v'"
proof (induction es arbitrary: n v)
  case Nil
  then show ?case by simp
next
  case (Cons a es)
  obtain b d where a: "a = (b, d)" by (cases a)
  show ?case
    using Cons.prems Cons.IH
    by (auto simp add: a Let_def split: if_splits prod.splits sum.splits)
qed

lemma finish_flag: "\<not> continuous (finish_continuous s)"
  by (simp add: finish_continuous_def Let_def)

lemma finish_pending:
  "pending (finish_continuous s) = pending s @ [SetContinuousActive False]"
  by (simp add: finish_continuous_def Let_def on_wire_def split: prod.splits)

lemma finish_sent:
  "sent (wire (finish_continuous s)) =
     (if inst s \<noteq> None \<and> 0 < leading_ok (script (wire s))
      then sent (wire s) @ [INIT_CONT_OFF] else sent (wire s))"
  by (auto simp add: finish_continuous_def Let_def on_wire_def try_except_def inst_write_def ok_def
      split: prod.splits option.splits list.splits io.splits)

lemma iteration_keeps:
  "continuous (snd (continuous_iteration flt s)) = continuous s
   \<and> inst (snd (continuous_iteration flt s)) = inst s"
  by (simp add: continuous_iteration_def on_wire_def split: prod.splits sum.splits)

lemma iteration_keeps':
  "continuous_iteration flt s = (r, s') \<Longrightarrow> continuous s' = continuous s \<and> inst s' = inst s"
  using iteration_keeps [of flt s] by simp

lemma sweep_failed_keeps:
  "continuous (sweep_failed n e s) = continuous s \<and> inst (sweep_failed n e s) = inst s"
  by (simp add: sweep_failed_def on_wire_def split: prod.splits)

lemma toggle_stops:
  assumes "continuous (sess k v)" "inst (sess k v) \<noteq> None"
  shows "toggle_continuous k v =
      put k ((sess k v)\<lparr>continuous := False,
                       sa_panel := set_continuous_active False (sa_panel (sess k v))\<rparr>) v"
  using assms by (auto simp add: toggle_continuous_def Let_def)

lemma sess_get_rm: "sess k (snd (get_rm v)) = sess k v"
  by (cases k) (simp_all add: get_rm_def sess_def split: option.splits)

lemma connect_failed_continuous: "continuous (connect_failed e s) = continuous s"
  by (simp add: connect_failed_def on_wire_def split: prod.splits)

lemma on_wire_continuous: "continuous (snd (on_wire m s)) = continuous s"
  by (simp add: on_wire_def split: prod.splits)

lemma open_session_continuous:
  "continuous (sess k (open_session k v)) = continuous (sess k v)"
proof -
  obtain r v1 where g: "get_rm v = (r, v1)" by (cases "get_rm v")
  have s1: "sess k v1 = sess k v"
    using sess_get_rm [of k v] g by simp
  show ?thesis
    using on_wire_continuous [of open_resource "sess k v"]
    by (auto simp add: open_session_def g s1 sess_put_same connect_failed_continuous Let_def
        on_wire_def split: sum.splits prod.splits)
qed

lemma ui_step_keeps_stopped:
  assumes "\<not> continuous (sess k v)" "a \<noteq> ToggleContinuous"
  shows "\<not> continuous (sess k (ui_step k a v))"
proof (cases a)
  case Idle
  then show ?thesis using assms by (simp add: ui_step_def)
next
  case ToggleContinuous
  then show ?thesis using assms by simp
next
  case (Connect ip)
  then show ?thesis
    using assms
    by (simp add: ui_step_def connect_def Let_def sess_put_same disconnect_session_def
        open_session_continuous on_wire_def split: prod.splits)
next
  case ResetPeak
  then show ?thesis using assms by (simp add: ui_step_def reset_peak_def Let_def sess_put_same)
qed

lemma stop_during_iteration:
  assumes run: "running_after k flt es n v = Some (n', u)"
    and c: "continuous (sess k (ui_step k b u))"
    and i: "inst (sess k (ui_step k b u)) \<noteq> None"
    and b2: "b2 \<noteq> ToggleContinuous"
  shows "\<exists>m v'. continuous_loop k flt (es @ (b, ToggleContinuous) # (b2, d2) # rest) n v = Some (m, v')
           \<and> m \<le> Suc n' \<and> \<not> continuous (sess k v')"
proof -
  let ?v1 = "ui_step k b u"
  let ?v2 = "ui_step k ToggleContinuous ?v1"
  have v2: "?v2 = put k ((sess k ?v1)\<lparr>continuous := False,
                       sa_panel := set_continuous_active False (sa_panel (sess k ?v1))\<rparr>) ?v1"
    using toggle_stops [OF c i] by (simp add: ui_step_def)
  have off: "\<not> continuous (sess k ?v2)"
    by (simp add: v2 sess_put_same)
  obtain r s3 where it: "continuous_iteration flt (sess k ?v2) = (r, s3)"
    by (cases "continuous_iteration flt (sess k ?v2)")
  have s3: "\<not> continuous s3"
    using iteration_keeps' [OF it] off by simp
  have app: "continuous_loop k flt (es @ (b, ToggleContinuous) # (b2, d2) # rest) n v
      = continuous_loop k flt ((b, ToggleContinuous) # (b2, d2) # rest) n' u"
    by (rule loop_append [OF run])
  show ?thesis
  proof (cases r)
    case (Inl e)
    then show ?thesis
      using c i it s3 by (simp add: app Let_def sess_put_same sweep_failed_keeps)
  next
    case (Inr x)
    have "\<not> continuous (sess k (ui_step k b2 (put k s3 ?v2)))"
      using s3 b2 by (intro ui_step_keeps_stopped) (simp_all add: sess_put_same)
    then show ?thesis
      using c i it Inr by (simp add: app Let_def)
  qed
qed

lemma running_viewer_sa1:
  "continuous (sa1 (running_viewer s))
   \<and> inst (sa1 (running_viewer s)) = Some \<lparr>timeout = 120000\<rparr>
   \<and> script (wire (sa1 (running_viewer s))) = s
   \<and> sa_panel (sa1 (running_viewer s)) = running_panel
   \<and> workers (sa1 (running_viewer s)) = [ContinuousWorker]
   \<and> sent (wire (sa1 (running_viewer s))) = [IDN_query]
   \<and> attempted (wire (sa1 (running_viewer s))) = [IDN_query]
   \<and> console (wire (sa1 (running_viewer s))) = []
   \<and> pending (sa1 (running_viewer s)) = []"
  by (simp add: running_viewer_def toggle_continuous_def start_continuous_def
      connect1_def connect_def new_viewer_def new_session_def running_panel_def
      sess_def put_def open_session_def get_rm_def on_wire_def open_resource_def identify_def
      act_defs strip_def is_space_def)

lemma running_panel_fields:
  "get_freq_range_for_panel dec_float running_panel = Inr (0, 3000)
   \<and> points_var running_panel = ''3001''
   \<and> bw_res_var running_panel = ''1M''
   \<and> bw_vid_var running_panel = ''1M''"
proof -
  have f0: "field_float dec_float ''0'' = Inr 0"
    and f3000: "field_float dec_float ''3000'' = Inr 3000"
    by (simp_all add: field_float_eval)
  show ?thesis
    by (simp add: running_panel_def get_freq_range_for_panel_def set_continuous_active_def
        set_message_def set_connected_def new_panel_def f0 f3000)
qed

lemma running_setup:
  "fst (continuous_setup dec_float (sa1 (running_viewer (ten_ok @ s)))) = Inr 120000
   \<and> script (wire (snd (continuous_setup dec_float (sa1 (running_viewer (ten_ok @ s)))))) = s
   \<and> sent (wire (snd (continuous_setup dec_float (sa1 (running_viewer (ten_ok @ s)))))) = configured
   \<and> attempted (wire (snd (continuous_setup dec_float (sa1 (running_viewer (ten_ok @ s))))))
       = configured
   \<and> pending (snd (continuous_setup dec_float (sa1 (running_viewer (ten_ok @ s))))) = []
   \<and> continuous (snd (continuous_setup dec_float (sa1 (running_viewer (ten_ok @ s)))))
   \<and> inst (snd (continuous_setup dec_float (sa1 (running_viewer (ten_ok @ s)))))
       = Some \<lparr>timeout = 30000\<rparr>"
proof -
  have pts: "py_int ''3001'' = Some 3001"
    by (simp add: py_int_def num_strip_def is_num_space_def int_digits_def is_digit_def digit_val_def)
  show ?thesis
    by (simp add: continuous_setup_def running_viewer_sa1 running_panel_fields pts on_wire_def
        configure_sa_def configure_writes_def act_defs expand_1M configured_def ten_ok_def)
qed

lemma setup_console:
  "console (wire (snd (continuous_setup dec_float (sa1 (running_viewer (ten_ok @ s)))))) = []"
proof -
  have pts: "py_int ''3001'' = Some 3001"
    by (simp add: py_int_def num_strip_def is_num_space_def int_digits_def is_digit_def digit_val_def)
  show ?thesis
    by (simp add: continuous_setup_def running_viewer_sa1 running_panel_fields pts on_wire_def
        configure_sa_def configure_writes_def act_defs expand_1M ten_ok_def)
qed

lemma one_sweep_iteration:
  assumes "inst s = Some h" "script (wire s) = one_sweep @ r"
  shows "continuous_iteration dec_float s =
     (Inr (), s\<lparr>wire := (wire s)\<lparr>
         attempted := attempted (wire s) @ [INIT, SWE_TIME_query, SWE_POIN_query, FREQ_STAR_query,
            FREQ_STOP_query, FORM_TRAC_DATA_ASCII, TRAC_DATA_query],
         sent := sent (wire s) @ [INIT, SWE_TIME_query, SWE_POIN_query, FREQ_STAR_query,
            FREQ_STOP_query, FORM_TRAC_DATA_ASCII, TRAC_DATA_query],
         script := r,
         slept := slept (wire s) @ [2 / 10, 3 / 2, 2 / 10, 2 / 10, 2 / 10, 2 / 10, 3 / 10]\<rparr>,
       pending := pending s @ [UpdatePlot [0, 5, 10] [1, 2, 3]]\<rparr>)"
proof -
  have t: "dec_float ''1.0'' = Some 1" "dec_float ''0'' = Some 0" "dec_float ''10'' = Some 10"
    "dec_float ''1'' = Some 1" "dec_float ''2'' = Some 2" "dec_float ''3'' = Some 3"
    by (simp_all add: dec_float_eval)
  have st: "strip ''3'' = ''3''" "strip ''0'' = ''0''" "strip ''10'' = ''10''"
    "strip ''1,2,3'' = ''1,2,3''" "strip ''1'' = ''1''" "strip ''2'' = ''2''"
    by (simp_all add: strip_def is_space_def)
  have i3: "py_int ''3'' = Some 3"
    by (simp add: py_int_def num_strip_def is_num_space_def int_digits_def is_digit_def digit_val_def)
  have dec: "decode_block dec_float 3 0 10 ''1,2,3'' = ok ([0, 5, 10], [1, 2, 3])"
    by (rule ext)
      (simp add: decode_block_def st data_region_def startswith_hash_def parse_amplitudes_def t
        linspace_def bind_def ok_def upt_rec)
  show ?thesis
    using assms
    by (simp add: continuous_iteration_def on_wire_def one_sweep_def read_trace_ascii_block_def
        act_defs t st i3 dec [unfolded ok_def])
qed

lemma ui_step_simps:
  "ui_step k Idle v = v"
  "ui_step k ToggleContinuous v = toggle_continuous k v"
  "ui_step k (Connect ip) v = connect k ip v"
  "ui_step k ResetPeak v = reset_peak k v"
  by (simp_all add: ui_step_def)

lemma setup_failed_fields:
  "sent (wire (setup_failed e s)) = sent (wire s)
   \<and> script (wire (setup_failed e s)) = script (wire s)
   \<and> inst (setup_failed e s) = inst s
   \<and> workers (setup_failed e s) = workers s"
  by (simp add: setup_failed_def on_wire_def print_line_def)

lemma finish_workers: "workers (finish_continuous s) = workers s"
  by (simp add: finish_continuous_def Let_def on_wire_def split: prod.splits)

lemma worker_after_loop:
  assumes su: "continuous_setup flt (sess k v) = (Inr t0, s1)"
    and l: "continuous_loop k flt schedule 0 (put k s1 v) = Some (m, v2)"
  shows "\<exists>v'. do_continuous k flt schedule v = Some v'
      \<and> \<not> continuous (sess k v')
      \<and> last (pending (sess k v')) = SetContinuousActive False
      \<and> workers (sess k v') = workers (sess k v2)
      \<and> (inst (sess k v2) \<noteq> None \<longrightarrow>
            pending (sess k v') = pending (sess k v2) @ [SetContinuousActive False])
      \<and> sent (wire (sess k v')) =
          (if inst (sess k v2) \<noteq> None \<and> 0 < leading_ok (script (wire (sess k v2)))
           then sent (wire (sess k v2)) @ [INIT_CONT_OFF]
           else sent (wire (sess k v2)))"
proof (cases "inst (sess k v2)")
  case None
  let ?v' = "put k (finish_continuous (setup_failed AttributeError (sess k v2))) v2"
  have r: "do_continuous k flt schedule v = Some ?v'"
    using su l None by (simp add: do_continuous_def Let_def del: continuous_loop.simps)
  have p: "\<not> continuous (sess k ?v')
      \<and> last (pending (sess k ?v')) = SetContinuousActive False
      \<and> workers (sess k ?v') = workers (sess k v2)
      \<and> sent (wire (sess k ?v')) = sent (wire (sess k v2))"
    using None
    by (simp add: sess_put_same finish_flag finish_pending finish_sent finish_workers
        setup_failed_fields)
  show ?thesis
    using r p None by auto
next
  case (Some h)
  let ?u = "(sess k v2)\<lparr>inst := Some (h\<lparr>timeout := t0\<rparr>)\<rparr>"
  let ?v' = "put k (finish_continuous ?u) v2"
  have r: "do_continuous k flt schedule v = Some ?v'"
    using su l Some by (simp add: do_continuous_def Let_def del: continuous_loop.simps)
  have p: "\<not> continuous (sess k ?v')
      \<and> last (pending (sess k ?v')) = SetContinuousActive False
      \<and> workers (sess k ?v') = workers (sess k v2)
      \<and> pending (sess k ?v') = pending (sess k v2) @ [SetContinuousActive False]
      \<and> sent (wire (sess k ?v')) =
          (if 0 < leading_ok (script (wire (sess k v2)))
           then sent (wire (sess k v2)) @ [INIT_CONT_OFF]
           else sent (wire (sess k v2)))"
    by (simp add: sess_put_same finish_flag finish_pending finish_sent finish_workers)
  show ?thesis
    using r p Some by auto
qed

lemma loop_exit:
  assumes "running_after k flt es n v = Some (n', u)"
    and "\<not> (continuous (sess k (ui_step k b u)) \<and> inst (sess k (ui_step k b u)) \<noteq> None)"
  shows "continuous_loop k flt (es @ (b, d) # rest) n v = Some (n', ui_step k b u)"
  using assms(2) by (auto simp add: loop_append [OF assms(1)] Let_def)

lemma loop_fail:
  assumes "running_after k flt es n v = Some (n', u)"
    and "continuous (sess k (ui_step k b u))" "inst (sess k (ui_step k b u)) \<noteq> None"
    and "continuous_iteration flt (sess k (ui_step k d (ui_step k b u))) = (Inl e, s3)"
  shows "continuous_loop k flt (es @ (b, d) # rest) n v
      = Some (n', put k (sweep_failed n' e s3) (ui_step k d (ui_step k b u)))"
  using assms(2-) by (auto simp add: loop_append [OF assms(1)] Let_def)

lemma running_after_append:
  "running_after k flt es n v = Some (n', v') \<Longrightarrow>
     running_after k flt (es @ rest) n v = running_after k flt rest n' v'"
proof (induction es arbitrary: n v)
  case Nil
  then show ?case by simp
next
  case (Cons a es)
  obtain b d where a: "a = (b, d)" by (cases a)
  show ?case
    using Cons.prems Cons.IH
    by (auto simp add: a Let_def split: if_splits prod.splits sum.splits)
qed

lemma one_sweep_fields:
  assumes "inst s = Some h" "script (wire s) = one_sweep @ r"
  shows "\<exists>s'. continuous_iteration dec_float s = (Inr (), s')
     \<and> inst s' = Some h \<and> continuous s' = continuous s \<and> workers s' = workers s
     \<and> script (wire s') = r
     \<and> sent (wire s') = sent (wire s) @ sweep_queries
     \<and> pending s' = pending s @ [UpdatePlot [0, 5, 10] [1, 2, 3]]"
  using assms by (simp add: one_sweep_iteration [OF assms] sweep_queries_def)

lemma pass_fields:
  assumes "continuous (sess k (ui_step k a v))" "inst (sess k (ui_step k a v)) \<noteq> None"
    and "inst (sess k (ui_step k d (ui_step k a v))) = Some h"
    and "script (wire (sess k (ui_step k d (ui_step k a v)))) = one_sweep @ r"
  shows "\<exists>u. running_after k dec_float [(a, d)] n v = Some (Suc n, u)
     \<and> continuous (sess k u) = continuous (sess k (ui_step k d (ui_step k a v)))
     \<and> inst (sess k u) = Some h
     \<and> script (wire (sess k u)) = r
     \<and> sent (wire (sess k u)) = sent (wire (sess k (ui_step k d (ui_step k a v)))) @ sweep_queries
     \<and> pending (sess k u)
         = pending (sess k (ui_step k d (ui_step k a v))) @ [UpdatePlot [0, 5, 10] [1, 2, 3]]
     \<and> workers (sess k u) = workers (sess k (ui_step k d (ui_step k a v)))"
proof -
  let ?v2 = "ui_step k d (ui_step k a v)"
  obtain s' where it: "continuous_iteration dec_float (sess k ?v2) = (Inr (), s')"
    and f: "inst s' = Some h" "continuous s' = continuous (sess k ?v2)"
      "workers s' = workers (sess k ?v2)" "script (wire s') = r"
      "sent (wire s') = sent (wire (sess k ?v2)) @ sweep_queries"
      "pending s' = pending (sess k ?v2) @ [UpdatePlot [0, 5, 10] [1, 2, 3]]"
    using one_sweep_fields [OF assms(3,4)] by blast
  have "running_after k dec_float [(a, d)] n v = Some (Suc n, put k s' ?v2)"
    using assms(1,2) it by (simp add: Let_def)
  then show ?thesis
    using f by (simp add: sess_put_same)
qed

lemma toggle_stops_fields:
  assumes "continuous (sess k v)" "inst (sess k v) \<noteq> None"
  shows "\<not> continuous (sess k (toggle_continuous k v))
    \<and> inst (sess k (toggle_continuous k v)) = inst (sess k v)
    \<and> wire (sess k (toggle_continuous k v)) = wire (sess k v)
    \<and> pending (sess k (toggle_continuous k v)) = pending (sess k v)
    \<and> workers (sess k (toggle_continuous k v)) = workers (sess k v)"
  by (simp add: toggle_stops [OF assms] sess_put_same)

lemma toggle_starts_fields:
  assumes "\<not> continuous (sess k v)" "inst (sess k v) \<noteq> None"
  shows "continuous (sess k (toggle_continuous k v))
    \<and> inst (sess k (toggle_continuous k v)) = inst (sess k v)
    \<and> wire (sess k (toggle_continuous k v)) = wire (sess k v)
    \<and> pending (sess k (toggle_continuous k v)) = pending (sess k v)
    \<and> workers (sess k (toggle_continuous k v)) = workers (sess k v) @ [ContinuousWorker]"
  using assms
  by (auto simp add: toggle_continuous_def start_continuous_def Let_def sess_put_same)

lemma disconnect_fields:
  assumes "ip \<noteq> []" "inst (sess k v) \<noteq> None"
  shows "inst (sess k (connect k ip v)) = None
    \<and> \<not> continuous (sess k (connect k ip v))
    \<and> sent (wire (sess k (connect k ip v))) = sent (wire (sess k v))
    \<and> pending (sess k (connect k ip v)) = pending (sess k v)
    \<and> workers (sess k (connect k ip v)) = workers (sess k v)"
  using assms
  by (auto simp add: connect_def Let_def sess_put_same disconnect_session_def on_wire_def
      try_except_def inst_close_def ok_def split: prod.splits list.splits io.splits)

lemma setup_workers: "workers (snd (continuous_setup flt s)) = workers s"
  by (auto simp add: continuous_setup_def on_wire_def split: sum.splits prod.splits option.splits)

lemma running_start:
  "\<exists>s1. continuous_setup dec_float (sess SA1 (running_viewer (ten_ok @ r))) = (Inr 120000, s1)
     \<and> continuous s1 \<and> inst s1 = Some \<lparr>timeout = 30000\<rparr>
     \<and> script (wire s1) = r \<and> sent (wire s1) = configured \<and> pending s1 = []
     \<and> workers s1 = [ContinuousWorker] \<and> console (wire s1) = []"
proof -
  obtain t0 s1 where su: "continuous_setup dec_float (sess SA1 (running_viewer (ten_ok @ r))) = (t0, s1)"
    by (cases "continuous_setup dec_float (sess SA1 (running_viewer (ten_ok @ r)))")
  have "t0 = Inr 120000 \<and> continuous s1 \<and> inst s1 = Some \<lparr>timeout = 30000\<rparr>
     \<and> script (wire s1) = r \<and> sent (wire s1) = configured \<and> pending s1 = []
     \<and> workers s1 = [ContinuousWorker] \<and> console (wire s1) = []"
    using running_setup [of r] setup_console [of r] running_viewer_sa1 [of "ten_ok @ r"] su
      setup_workers [of dec_float "sa1 (running_viewer (ten_ok @ r))"]
    by (simp add: sess_def)
  then show ?thesis
    using su by blast
qed

lemma first_pass:
  assumes "a = Idle \<or> a = ToggleContinuous"
  shows "\<exists>s1 u. continuous_setup dec_float (sess SA1 (running_viewer (ten_ok @ one_sweep @ r)))
            = (Inr 120000, s1)
     \<and> running_after SA1 dec_float [(Idle, a)] 0
          (put SA1 s1 (running_viewer (ten_ok @ one_sweep @ r))) = Some (Suc 0, u)
     \<and> continuous (sess SA1 u) = (a = Idle)
     \<and> inst (sess SA1 u) = Some \<lparr>timeout = 30000\<rparr>
     \<and> script (wire (sess SA1 u)) = r
     \<and> sent (wire (sess SA1 u)) = configured @ sweep_queries
     \<and> pending (sess SA1 u) = [UpdatePlot [0, 5, 10] [1, 2, 3]]
     \<and> workers (sess SA1 u) = [ContinuousWorker]"
proof -
  let ?V = "running_viewer (ten_ok @ one_sweep @ r)"
  obtain s1 where su: "continuous_setup dec_float (sess SA1 ?V) = (Inr 120000, s1)"
    and s1: "continuous s1" "inst s1 = Some \<lparr>timeout = 30000\<rparr>"
      "script (wire s1) = one_sweep @ r" "sent (wire s1) = configured" "pending s1 = []"
      "workers s1 = [ContinuousWorker]"
    using running_start [of "one_sweep @ r"] by blast
  let ?v0 = "put SA1 s1 ?V"
  let ?v2 = "ui_step SA1 a (ui_step SA1 Idle ?v0)"
  have v2: "continuous (sess SA1 ?v2) = (a = Idle)" "inst (sess SA1 ?v2) = Some \<lparr>timeout = 30000\<rparr>"
    "wire (sess SA1 ?v2) = wire s1" "pending (sess SA1 ?v2) = []"
    "workers (sess SA1 ?v2) = [ContinuousWorker]"
    using assms s1 toggle_stops_fields [of SA1 ?v0]
    by (auto simp add: ui_step_simps sess_put_same)
  obtain u where "running_after SA1 dec_float [(Idle, a)] 0 ?v0 = Some (Suc 0, u)"
    "continuous (sess SA1 u) = continuous (sess SA1 ?v2)"
    "inst (sess SA1 u) = Some \<lparr>timeout = 30000\<rparr>"
    "script (wire (sess SA1 u)) = r"
    "sent (wire (sess SA1 u)) = sent (wire (sess SA1 ?v2)) @ sweep_queries"
    "pending (sess SA1 u) = pending (sess SA1 ?v2) @ [UpdatePlot [0, 5, 10] [1, 2, 3]]"
    "workers (sess SA1 u) = workers (sess SA1 ?v2)"
    using pass_fields [of SA1 Idle ?v0 a "\<lparr>timeout = 30000\<rparr>" r 0] s1 v2
    by (auto simp add: ui_step_simps sess_put_same simp del: running_after.simps)
  then show ?thesis
    using su v2 s1 by (auto simp del: running_after.simps)
qed

lemma dead_wire_iteration:
  assumes "inst s = Some h" "script (wire s) = []"
  shows "continuous_iteration flt s
     = (Inl VisaIOError, s\<lparr>wire := (wire s)\<lparr>attempted := attempted (wire s) @ [INIT]\<rparr>\<rparr>)"
  using assms
  by (simp add: continuous_iteration_def on_wire_def bind_def inst_write_def Let_def)

lemma sweep_failed_fields:
  "sent (wire (sweep_failed n e s)) = sent (wire s)
   \<and> script (wire (sweep_failed n e s)) = script (wire s)
   \<and> console (wire (sweep_failed n e s)) = console (wire s) @ [SweepErrorLine n e]"
  by (simp add: sweep_failed_def on_wire_def act_defs)

text \<open>
  C3, as the code has it. The loop ends at its check when the running flag is clear or the
  handle is gone, and at the iteration that fails, whatever the user interface would have
  done later: it does not resume. Whenever the loop has ended the worker returns, the
  running flag is cleared and the panel is told so. The write that sets the trigger to
  non-continuous is one attempt in the \<^verbatim>\<open>finally\<close> block, failures ignored: the
  command reaches the instrument when the handle is still there and the transport takes
  the write; after a disconnect, or on a transport that refuses, nothing more is sent.
\<close>

theorem continuous_worker_exit:
  "(running_after k flt es n v = Some (n', u)
        \<and> \<not> (continuous (sess k (ui_step k b u)) \<and> inst (sess k (ui_step k b u)) \<noteq> None)
      \<longrightarrow> continuous_loop k flt (es @ (b, d) # rest) n v = Some (n', ui_step k b u))
   \<and> (running_after k flt es n v = Some (n', u)
        \<and> continuous (sess k (ui_step k b u)) \<and> inst (sess k (ui_step k b u)) \<noteq> None
        \<and> continuous_iteration flt (sess k (ui_step k d (ui_step k b u))) = (Inl e, s3)
      \<longrightarrow> continuous_loop k flt (es @ (b, d) # rest) n v
            = Some (n', put k (sweep_failed n' e s3) (ui_step k d (ui_step k b u))))
   \<and> (continuous_setup flt (sess k v) = (Inr t0, s1)
        \<and> continuous_loop k flt schedule 0 (put k s1 v) = Some (m, v2)
      \<longrightarrow> (\<exists>v'. do_continuous k flt schedule v = Some v'
             \<and> \<not> continuous (sess k v')
             \<and> last (pending (sess k v')) = SetContinuousActive False
             \<and> sent (wire (sess k v')) =
                 (if inst (sess k v2) \<noteq> None \<and> 0 < leading_ok (script (wire (sess k v2)))
                  then sent (wire (sess k v2)) @ [INIT_CONT_OFF]
                  else sent (wire (sess k v2)))))"
proof -
  have a: "running_after k flt es n v = Some (n', u)
        \<and> \<not> (continuous (sess k (ui_step k b u)) \<and> inst (sess k (ui_step k b u)) \<noteq> None)
      \<longrightarrow> continuous_loop k flt (es @ (b, d) # rest) n v = Some (n', ui_step k b u)"
    using loop_exit [of k flt es n v n' u b d rest] by blast
  have c: "running_after k flt es n v = Some (n', u)
        \<and> continuous (sess k (ui_step k b u)) \<and> inst (sess k (ui_step k b u)) \<noteq> None
        \<and> continuous_iteration flt (sess k (ui_step k d (ui_step k b u))) = (Inl e, s3)
      \<longrightarrow> continuous_loop k flt (es @ (b, d) # rest) n v
            = Some (n', put k (sweep_failed n' e s3) (ui_step k d (ui_step k b u)))"
    using loop_fail [of k flt es n v n' u b d e s3 rest] by blast
  have f: "continuous_setup flt (sess k v) = (Inr t0, s1)
        \<and> continuous_loop k flt schedule 0 (put k s1 v) = Some (m, v2)
      \<longrightarrow> (\<exists>v'. do_continuous k flt schedule v = Some v'
             \<and> \<not> continuous (sess k v')
             \<and> last (pending (sess k v')) = SetContinuousActive False
             \<and> sent (wire (sess k v')) =
                 (if inst (sess k v2) \<noteq> None \<and> 0 < leading_ok (script (wire (sess k v2)))
                  then sent (wire (sess k v2)) @ [INIT_CONT_OFF]
                  else sent (wire (sess k v2))))"
    using worker_after_loop [of flt k v t0 s1 schedule m v2] by blast
  show ?thesis
    using a c f by blast
qed

theorem continuous_worker_exit_witness:
  "(\<exists>v'. disconnect_run = Some v'
       \<and> \<not> continuous (sess SA1 v')
       \<and> sent (wire (sess SA1 v')) = configured @ sweep_queries)
   \<and> (\<exists>v'. stop_run = Some v'
       \<and> \<not> continuous (sess SA1 v')
       \<and> sent (wire (sess SA1 v')) = configured @ sweep_queries @ [INIT_CONT_OFF])
   \<and> (\<exists>v'. failing_run = Some v'
       \<and> \<not> continuous (sess SA1 v')
       \<and> sent (wire (sess SA1 v')) = configured)"
proof -
  let ?V = "running_viewer (ten_ok @ one_sweep @ [IoOk []])"
  have first: "\<exists>v'. disconnect_run = Some v'
       \<and> \<not> continuous (sess SA1 v')
       \<and> sent (wire (sess SA1 v')) = configured @ sweep_queries"
  proof -
    obtain s1 u where su: "continuous_setup dec_float (sess SA1 ?V) = (Inr 120000, s1)"
      and ru: "running_after SA1 dec_float [(Idle, Idle)] 0 (put SA1 s1 ?V) = Some (Suc 0, u)"
      and u: "inst (sess SA1 u) = Some \<lparr>timeout = 30000\<rparr>"
        "sent (wire (sess SA1 u)) = configured @ sweep_queries"
      using first_pass [of Idle "[IoOk []]"] by auto
    let ?c = "ui_step SA1 (Connect ''192.168.60.70'') u"
    have c: "inst (sess SA1 ?c) = None" "sent (wire (sess SA1 ?c)) = configured @ sweep_queries"
      using disconnect_fields [of "''192.168.60.70''" SA1 u] u by (simp_all add: ui_step_simps)
    have dl: "continuous_loop SA1 dec_float ([(Idle, Idle)] @ (Connect ''192.168.60.70'', Idle) # [])
        0 (put SA1 s1 ?V) = Some (Suc 0, ?c)"
      using continuous_worker_exit [where k = SA1 and flt = dec_float and es = "[(Idle, Idle)]"
          and n = 0 and v = "put SA1 s1 ?V" and n' = "Suc 0" and u = u
          and b = "Connect ''192.168.60.70''" and d = Idle and rest = "[]", THEN conjunct1]
        ru c(1)
      by (simp del: continuous_loop.simps running_after.simps)
    have "\<exists>v'. do_continuous SA1 dec_float [(Idle, Idle), (Connect ''192.168.60.70'', Idle)] ?V
            = Some v'
         \<and> \<not> continuous (sess SA1 v')
         \<and> last (pending (sess SA1 v')) = SetContinuousActive False
         \<and> sent (wire (sess SA1 v')) =
             (if inst (sess SA1 ?c) \<noteq> None \<and> 0 < leading_ok (script (wire (sess SA1 ?c)))
              then sent (wire (sess SA1 ?c)) @ [INIT_CONT_OFF]
              else sent (wire (sess SA1 ?c)))"
      using continuous_worker_exit [where k = SA1 and flt = dec_float and v = ?V
          and ?t0.0 = 120000 and ?s1.0 = s1 and m = "Suc 0" and ?v2.0 = ?c
          and schedule = "[(Idle, Idle), (Connect ''192.168.60.70'', Idle)]",
          THEN conjunct2, THEN conjunct2]
        su dl
      by (simp del: continuous_loop.simps)
    then show ?thesis
      using c by (auto simp add: disconnect_run_def)
  qed
  have second: "\<exists>v'. stop_run = Some v'
       \<and> \<not> continuous (sess SA1 v')
       \<and> sent (wire (sess SA1 v')) = configured @ sweep_queries @ [INIT_CONT_OFF]"
  proof -
    obtain s1 u where su: "continuous_setup dec_float (sess SA1 ?V) = (Inr 120000, s1)"
      and ru: "running_after SA1 dec_float [(Idle, ToggleContinuous)] 0 (put SA1 s1 ?V)
          = Some (Suc 0, u)"
      and u: "\<not> continuous (sess SA1 u)" "inst (sess SA1 u) = Some \<lparr>timeout = 30000\<rparr>"
        "script (wire (sess SA1 u)) = [IoOk []]"
        "sent (wire (sess SA1 u)) = configured @ sweep_queries"
      using first_pass [of ToggleContinuous "[IoOk []]"] by auto
    have dl: "continuous_loop SA1 dec_float ([(Idle, ToggleContinuous)] @ (Idle, Idle) # [])
        0 (put SA1 s1 ?V) = Some (Suc 0, u)"
      using continuous_worker_exit [where k = SA1 and flt = dec_float
          and es = "[(Idle, ToggleContinuous)]" and n = 0 and v = "put SA1 s1 ?V"
          and n' = "Suc 0" and u = u and b = Idle and d = Idle and rest = "[]",
          THEN conjunct1]
        ru u(1)
      by (simp add: ui_step_simps del: continuous_loop.simps running_after.simps)
    have "\<exists>v'. do_continuous SA1 dec_float [(Idle, ToggleContinuous), (Idle, Idle)] ?V = Some v'
         \<and> \<not> continuous (sess SA1 v')
         \<and> last (pending (sess SA1 v')) = SetContinuousActive False
         \<and> sent (wire (sess SA1 v')) =
             (if inst (sess SA1 u) \<noteq> None \<and> 0 < leading_ok (script (wire (sess SA1 u)))
              then sent (wire (sess SA1 u)) @ [INIT_CONT_OFF]
              else sent (wire (sess SA1 u)))"
      using continuous_worker_exit [where k = SA1 and flt = dec_float and v = ?V
          and ?t0.0 = 120000 and ?s1.0 = s1 and m = "Suc 0" and ?v2.0 = u
          and schedule = "[(Idle, ToggleContinuous), (Idle, Idle)]",
          THEN conjunct2, THEN conjunct2]
        su dl
      by (simp del: continuous_loop.simps)
    then show ?thesis
      using u by (auto simp add: stop_run_def)
  qed
  have third: "\<exists>v'. failing_run = Some v'
       \<and> \<not> continuous (sess SA1 v')
       \<and> sent (wire (sess SA1 v')) = configured"
  proof -
    let ?W = "running_viewer ten_ok"
    obtain s1 where su: "continuous_setup dec_float (sess SA1 ?W) = (Inr 120000, s1)"
      and s1: "continuous s1" "inst s1 = Some \<lparr>timeout = 30000\<rparr>" "script (wire s1) = []"
        "sent (wire s1) = configured"
      using running_start [of "[]"] by auto
    let ?s3 = "s1\<lparr>wire := (wire s1)\<lparr>attempted := attempted (wire s1) @ [INIT]\<rparr>\<rparr>"
    let ?f = "put SA1 (sweep_failed 0 VisaIOError ?s3) (put SA1 s1 ?W)"
    have it: "continuous_iteration dec_float s1 = (Inl VisaIOError, ?s3)"
      using dead_wire_iteration [of s1 "\<lparr>timeout = 30000\<rparr>" dec_float] s1 by simp
    have dl: "continuous_loop SA1 dec_float ([] @ (Idle, Idle) # []) 0 (put SA1 s1 ?W)
        = Some (0, ?f)"
      using continuous_worker_exit [where k = SA1 and flt = dec_float and es = "[]" and n = 0
          and v = "put SA1 s1 ?W" and n' = 0 and u = "put SA1 s1 ?W" and b = Idle and d = Idle
          and e = VisaIOError and ?s3.0 = ?s3 and rest = "[]",
          THEN conjunct2, THEN conjunct1]
        it s1
      by (simp add: ui_step_simps sess_put_same del: continuous_loop.simps)
    have f: "inst (sess SA1 ?f) = Some \<lparr>timeout = 30000\<rparr>" "script (wire (sess SA1 ?f)) = []"
      "sent (wire (sess SA1 ?f)) = configured"
      using s1 by (simp_all add: sess_put_same sweep_failed_keeps sweep_failed_fields)
    have "\<exists>v'. do_continuous SA1 dec_float [(Idle, Idle)] ?W = Some v'
         \<and> \<not> continuous (sess SA1 v')
         \<and> last (pending (sess SA1 v')) = SetContinuousActive False
         \<and> sent (wire (sess SA1 v')) =
             (if inst (sess SA1 ?f) \<noteq> None \<and> 0 < leading_ok (script (wire (sess SA1 ?f)))
              then sent (wire (sess SA1 ?f)) @ [INIT_CONT_OFF]
              else sent (wire (sess SA1 ?f)))"
      using continuous_worker_exit [where k = SA1 and flt = dec_float and v = ?W
          and ?t0.0 = 120000 and ?s1.0 = s1 and m = 0 and ?v2.0 = ?f
          and schedule = "[(Idle, Idle)]", THEN conjunct2, THEN conjunct2]
        su dl
      by (simp del: continuous_loop.simps)
    then show ?thesis
      using f by (auto simp add: failing_run_def)
  qed
  show ?thesis
    using first second third by blast
qed

lemma disconnect_run_result:
  "\<exists>v'. disconnect_run = Some v'
     \<and> \<not> continuous (sa1 v')
     \<and> workers (sa1 v') = [ContinuousWorker]
     \<and> sent (wire (sa1 v')) = configured @ sweep_queries"
proof -
  let ?V = "running_viewer (ten_ok @ one_sweep @ [IoOk []])"
  obtain s1 u where su: "continuous_setup dec_float (sess SA1 ?V) = (Inr 120000, s1)"
    and ru: "running_after SA1 dec_float [(Idle, Idle)] 0 (put SA1 s1 ?V) = Some (Suc 0, u)"
    and u: "inst (sess SA1 u) = Some \<lparr>timeout = 30000\<rparr>"
      "sent (wire (sess SA1 u)) = configured @ sweep_queries"
      "workers (sess SA1 u) = [ContinuousWorker]"
    using first_pass [of Idle "[IoOk []]"] by auto
  let ?c = "ui_step SA1 (Connect ''192.168.60.70'') u"
  have c: "inst (sess SA1 ?c) = None" "sent (wire (sess SA1 ?c)) = configured @ sweep_queries"
    "workers (sess SA1 ?c) = [ContinuousWorker]"
    using disconnect_fields [of "''192.168.60.70''" SA1 u] u by (simp_all add: ui_step_simps)
  have dl: "continuous_loop SA1 dec_float ([(Idle, Idle)] @ (Connect ''192.168.60.70'', Idle) # [])
      0 (put SA1 s1 ?V) = Some (Suc 0, ?c)"
    using c(1) by (intro loop_exit [OF ru]) simp
  then have dl': "continuous_loop SA1 dec_float [(Idle, Idle), (Connect ''192.168.60.70'', Idle)]
      0 (put SA1 s1 ?V) = Some (Suc 0, ?c)"
    by (simp del: continuous_loop.simps)
  show ?thesis
    using worker_after_loop [OF su dl'] c by (auto simp add: disconnect_run_def sess_def)
qed

text \<open>
  The disconnect exit. The analyser is disconnected after the first iteration; the loop
  ends at its next check and the worker returns with the flag clear, but the last command
  the instrument has received is the trace query of that iteration: the write in the
  \<^verbatim>\<open>finally\<close> block finds no handle and sends nothing.
\<close>

theorem disconnect_exit_sends_no_restore:
  "map_option (sent \<circ> wire \<circ> sa1) disconnect_run = Some (configured @ sweep_queries)
   \<and> map_option (continuous \<circ> sa1) disconnect_run = Some False
   \<and> last (configured @ sweep_queries) = TRAC_DATA_query"
  using disconnect_run_result by (auto simp add: sweep_queries_def)

text \<open>
  The toggle goes by the flag alone. With the flag clear it sets the flag and starts a
  worker, also when an earlier worker has not yet come back to the top of its loop.
\<close>

lemma toggle_starts_worker:
  assumes "\<not> continuous (sess k v)" "inst (sess k v) \<noteq> None"
  shows "continuous (sess k (toggle_continuous k v))
    \<and> workers (sess k (toggle_continuous k v)) = workers (sess k v) @ [ContinuousWorker]"
  using toggle_starts_fields [OF assms] by simp

text \<open>
  C7, as the code has it. With the running flag set and the analyser connected, the
  toggle only clears the flag and shows it on the panel: no worker is started. When the
  flag is cleared while an iteration is in flight and no start request comes before the
  loop looks at the flag again, the loop ends at that check: at most the iteration in
  flight completes, the worker returns with the flag clear, and its one attempt to write
  the non-continuous trigger command reaches the instrument when the handle is still
  there and the transport takes the write.
\<close>

theorem stop_request_ends_loop:
  "(continuous (sess k v) \<and> inst (sess k v) \<noteq> None \<longrightarrow>
        toggle_continuous k v =
          put k ((sess k v)\<lparr>continuous := False,
                           sa_panel := set_continuous_active False (sa_panel (sess k v))\<rparr>) v
      \<and> workers (sess k (toggle_continuous k v)) = workers (sess k v))
   \<and> (running_after k flt es n v = Some (n', u)
        \<and> continuous (sess k (ui_step k b u)) \<and> inst (sess k (ui_step k b u)) \<noteq> None
        \<and> b2 \<noteq> ToggleContinuous
      \<longrightarrow> (\<exists>m v'. continuous_loop k flt (es @ (b, ToggleContinuous) # (b2, d2) # rest) n v
                      = Some (m, v')
             \<and> m \<le> Suc n' \<and> \<not> continuous (sess k v')))
   \<and> (continuous_setup flt (sess k v) = (Inr t0, s1)
        \<and> running_after k flt es 0 (put k s1 v) = Some (n', u)
        \<and> continuous (sess k (ui_step k b u)) \<and> inst (sess k (ui_step k b u)) \<noteq> None
        \<and> b2 \<noteq> ToggleContinuous
      \<longrightarrow> (\<exists>m v2 v'.
              continuous_loop k flt (es @ (b, ToggleContinuous) # (b2, d2) # rest) 0 (put k s1 v)
                = Some (m, v2)
             \<and> m \<le> Suc n'
             \<and> do_continuous k flt (es @ (b, ToggleContinuous) # (b2, d2) # rest) v = Some v'
             \<and> \<not> continuous (sess k v')
             \<and> sent (wire (sess k v')) =
                 (if inst (sess k v2) \<noteq> None \<and> 0 < leading_ok (script (wire (sess k v2)))
                  then sent (wire (sess k v2)) @ [INIT_CONT_OFF]
                  else sent (wire (sess k v2)))))"
proof -
  have a: "continuous (sess k v) \<and> inst (sess k v) \<noteq> None \<longrightarrow>
        toggle_continuous k v =
          put k ((sess k v)\<lparr>continuous := False,
                           sa_panel := set_continuous_active False (sa_panel (sess k v))\<rparr>) v
      \<and> workers (sess k (toggle_continuous k v)) = workers (sess k v)"
    by (auto simp add: toggle_stops sess_put_same)
  have b: "running_after k flt es n v = Some (n', u)
        \<and> continuous (sess k (ui_step k b u)) \<and> inst (sess k (ui_step k b u)) \<noteq> None
        \<and> b2 \<noteq> ToggleContinuous
      \<longrightarrow> (\<exists>m v'. continuous_loop k flt (es @ (b, ToggleContinuous) # (b2, d2) # rest) n v
                      = Some (m, v')
             \<and> m \<le> Suc n' \<and> \<not> continuous (sess k v'))"
    using stop_during_iteration [of k flt es n v n' u b b2 d2 rest] by blast
  have c: "continuous_setup flt (sess k v) = (Inr t0, s1)
        \<and> running_after k flt es 0 (put k s1 v) = Some (n', u)
        \<and> continuous (sess k (ui_step k b u)) \<and> inst (sess k (ui_step k b u)) \<noteq> None
        \<and> b2 \<noteq> ToggleContinuous
      \<longrightarrow> (\<exists>m v2 v'.
              continuous_loop k flt (es @ (b, ToggleContinuous) # (b2, d2) # rest) 0 (put k s1 v)
                = Some (m, v2)
             \<and> m \<le> Suc n'
             \<and> do_continuous k flt (es @ (b, ToggleContinuous) # (b2, d2) # rest) v = Some v'
             \<and> \<not> continuous (sess k v')
             \<and> sent (wire (sess k v')) =
                 (if inst (sess k v2) \<noteq> None \<and> 0 < leading_ok (script (wire (sess k v2)))
                  then sent (wire (sess k v2)) @ [INIT_CONT_OFF]
                  else sent (wire (sess k v2))))"
  proof (intro impI)
    assume h: "continuous_setup flt (sess k v) = (Inr t0, s1)
        \<and> running_after k flt es 0 (put k s1 v) = Some (n', u)
        \<and> continuous (sess k (ui_step k b u)) \<and> inst (sess k (ui_step k b u)) \<noteq> None
        \<and> b2 \<noteq> ToggleContinuous"
    let ?sch = "es @ (b, ToggleContinuous) # (b2, d2) # rest"
    obtain m v2 where l: "continuous_loop k flt ?sch 0 (put k s1 v) = Some (m, v2)"
      and m: "m \<le> Suc n'"
      using h stop_during_iteration [of k flt es 0 "put k s1 v" n' u b b2 d2 rest] by blast
    have su: "continuous_setup flt (sess k v) = (Inr t0, s1)"
      using h by simp
    show "\<exists>m v2 v'.
              continuous_loop k flt ?sch 0 (put k s1 v) = Some (m, v2)
             \<and> m \<le> Suc n'
             \<and> do_continuous k flt ?sch v = Some v'
             \<and> \<not> continuous (sess k v')
             \<and> sent (wire (sess k v')) =
                 (if inst (sess k v2) \<noteq> None \<and> 0 < leading_ok (script (wire (sess k v2)))
                  then sent (wire (sess k v2)) @ [INIT_CONT_OFF]
                  else sent (wire (sess k v2)))"
      using worker_after_loop [OF su l] l m by blast
  qed
  show ?thesis
    using a b c by blast
qed

theorem stop_request_ends_loop_witness:
  "\<not> continuous (sess SA1 (toggle_continuous SA1 (running_viewer [])))
   \<and> workers (sess SA1 (toggle_continuous SA1 (running_viewer []))) = [ContinuousWorker]
   \<and> (\<exists>m v'. continuous_loop SA1 dec_float [(Idle, ToggleContinuous), (Idle, Idle)] 0
                 (running_viewer one_sweep) = Some (m, v')
         \<and> m \<le> 1 \<and> \<not> continuous (sess SA1 v'))
   \<and> (\<exists>v'. stop_run = Some v'
         \<and> \<not> continuous (sess SA1 v')
         \<and> sent (wire (sess SA1 v')) = configured @ sweep_queries @ [INIT_CONT_OFF])"
proof -
  have rv: "\<And>s. continuous (sess SA1 (running_viewer s))
      \<and> inst (sess SA1 (running_viewer s)) \<noteq> None
      \<and> workers (sess SA1 (running_viewer s)) = [ContinuousWorker]"
    using running_viewer_sa1 by (simp add: sess_def)
  have a: "\<not> continuous (sess SA1 (toggle_continuous SA1 (running_viewer [])))
      \<and> workers (sess SA1 (toggle_continuous SA1 (running_viewer []))) = [ContinuousWorker]"
    using stop_request_ends_loop [where k = SA1 and v = "running_viewer []"] rv [of "[]"]
    by (simp add: sess_put_same)
  have b: "\<exists>m v'. continuous_loop SA1 dec_float ([] @ (Idle, ToggleContinuous) # (Idle, Idle) # []) 0
                 (running_viewer one_sweep) = Some (m, v')
         \<and> m \<le> Suc 0 \<and> \<not> continuous (sess SA1 v')"
    using stop_request_ends_loop [where k = SA1 and flt = dec_float and es = "[]" and n = 0
        and v = "running_viewer one_sweep" and n' = 0 and u = "running_viewer one_sweep"
        and b = Idle and ?b2.0 = Idle and ?d2.0 = Idle and rest = "[]"] rv [of one_sweep]
    by (simp add: ui_step_simps del: continuous_loop.simps)
  let ?V = "running_viewer (ten_ok @ one_sweep @ [IoOk []])"
  obtain s1 u where su: "continuous_setup dec_float (sess SA1 ?V) = (Inr 120000, s1)"
    and ru: "running_after SA1 dec_float [(Idle, ToggleContinuous)] 0 (put SA1 s1 ?V)
        = Some (Suc 0, u)"
    and u: "\<not> continuous (sess SA1 u)" "inst (sess SA1 u) = Some \<lparr>timeout = 30000\<rparr>"
      "script (wire (sess SA1 u)) = [IoOk []]"
      "sent (wire (sess SA1 u)) = configured @ sweep_queries"
    using first_pass [of ToggleContinuous "[IoOk []]"] by auto
  have s1: "continuous s1" "inst s1 = Some \<lparr>timeout = 30000\<rparr>"
    using running_start [of "one_sweep @ [IoOk []]"] su by auto
  have lu: "continuous_loop SA1 dec_float [(Idle, ToggleContinuous), (Idle, Idle)] 0 (put SA1 s1 ?V)
      = Some (Suc 0, u)"
    using loop_exit [OF ru, of Idle Idle "[]"] u(1)
    by (simp add: ui_step_simps del: continuous_loop.simps running_after.simps)
  have "\<exists>m v2 v'.
          continuous_loop SA1 dec_float ([] @ (Idle, ToggleContinuous) # (Idle, Idle) # []) 0
              (put SA1 s1 ?V) = Some (m, v2)
         \<and> m \<le> Suc 0
         \<and> do_continuous SA1 dec_float ([] @ (Idle, ToggleContinuous) # (Idle, Idle) # []) ?V
              = Some v'
         \<and> \<not> continuous (sess SA1 v')
         \<and> sent (wire (sess SA1 v')) =
             (if inst (sess SA1 v2) \<noteq> None \<and> 0 < leading_ok (script (wire (sess SA1 v2)))
              then sent (wire (sess SA1 v2)) @ [INIT_CONT_OFF]
              else sent (wire (sess SA1 v2)))"
    using stop_request_ends_loop [where k = SA1 and flt = dec_float and es = "[]"
        and v = ?V and n' = 0 and u = "put SA1 s1 ?V" and ?t0.0 = 120000 and ?s1.0 = s1
        and b = Idle and ?b2.0 = Idle and ?d2.0 = Idle and rest = "[]",
        THEN conjunct2, THEN conjunct2] su s1
    by (simp add: ui_step_simps sess_put_same del: continuous_loop.simps)
  then have c: "\<exists>v'. stop_run = Some v'
         \<and> \<not> continuous (sess SA1 v')
         \<and> sent (wire (sess SA1 v')) = configured @ sweep_queries @ [INIT_CONT_OFF]"
    using lu u by (auto simp add: stop_run_def simp del: continuous_loop.simps)
  show ?thesis
    using a b c by (auto simp del: continuous_loop.simps)
qed

lemma restart_run_result:
  "\<exists>v'. restart_run = Some v'
     \<and> pending (sa1 v') = [UpdatePlot [0, 5, 10] [1, 2, 3], UpdatePlot [0, 5, 10] [1, 2, 3],
          UpdatePlot [0, 5, 10] [1, 2, 3], SetContinuousActive False]
     \<and> workers (sa1 v') = [ContinuousWorker, ContinuousWorker]"
proof -
  let ?h = "\<lparr>timeout = 30000\<rparr>"
  let ?U = "UpdatePlot [0, 5, 10] [1, 2, 3]"
  let ?V = "running_viewer (ten_ok @ one_sweep @ one_sweep @ one_sweep @ [IoOk []])"
  obtain s1 u1 where su: "continuous_setup dec_float (sess SA1 ?V) = (Inr 120000, s1)"
    and r1: "running_after SA1 dec_float [(Idle, ToggleContinuous)] 0 (put SA1 s1 ?V)
        = Some (Suc 0, u1)"
    and u1: "\<not> continuous (sess SA1 u1)" "inst (sess SA1 u1) = Some ?h"
      "script (wire (sess SA1 u1)) = one_sweep @ one_sweep @ [IoOk []]"
      "pending (sess SA1 u1) = [?U]" "workers (sess SA1 u1) = [ContinuousWorker]"
    using first_pass [of ToggleContinuous "one_sweep @ one_sweep @ [IoOk []]"] by auto
  let ?t1 = "toggle_continuous SA1 u1"
  have t1: "continuous (sess SA1 ?t1)" "inst (sess SA1 ?t1) = Some ?h"
    "script (wire (sess SA1 ?t1)) = one_sweep @ one_sweep @ [IoOk []]"
    "pending (sess SA1 ?t1) = [?U]"
    "workers (sess SA1 ?t1) = [ContinuousWorker, ContinuousWorker]"
    using toggle_starts_fields [of SA1 u1] u1 by simp_all
  obtain u2 where r2: "running_after SA1 dec_float [(ToggleContinuous, Idle)] (Suc 0) u1
        = Some (Suc (Suc 0), u2)"
    and u2: "continuous (sess SA1 u2)" "inst (sess SA1 u2) = Some ?h"
      "script (wire (sess SA1 u2)) = one_sweep @ [IoOk []]"
      "pending (sess SA1 u2) = [?U, ?U]"
      "workers (sess SA1 u2) = [ContinuousWorker, ContinuousWorker]"
    using pass_fields [of SA1 ToggleContinuous u1 Idle ?h "one_sweep @ [IoOk []]" "Suc 0"] t1
    by (auto simp add: ui_step_simps simp del: running_after.simps)
  obtain u3 where r3: "running_after SA1 dec_float [(Idle, Idle)] (Suc (Suc 0)) u2
        = Some (Suc (Suc (Suc 0)), u3)"
    and u3: "continuous (sess SA1 u3)" "inst (sess SA1 u3) = Some ?h"
      "pending (sess SA1 u3) = [?U, ?U, ?U]"
      "workers (sess SA1 u3) = [ContinuousWorker, ContinuousWorker]"
    using pass_fields [of SA1 Idle u2 Idle ?h "[IoOk []]" "Suc (Suc 0)"] u2
    by (auto simp add: ui_step_simps simp del: running_after.simps)
  have r12: "running_after SA1 dec_float ([(Idle, ToggleContinuous)] @ [(ToggleContinuous, Idle)]) 0
      (put SA1 s1 ?V) = Some (Suc (Suc 0), u2)"
    using running_after_append [OF r1, of "[(ToggleContinuous, Idle)]"] r2 by simp
  have r123: "running_after SA1 dec_float
      (([(Idle, ToggleContinuous)] @ [(ToggleContinuous, Idle)]) @ [(Idle, Idle)]) 0
      (put SA1 s1 ?V) = Some (Suc (Suc (Suc 0)), u3)"
    using running_after_append [OF r12, of "[(Idle, Idle)]"] r3 by simp
  let ?t3 = "ui_step SA1 ToggleContinuous u3"
  have t3: "\<not> continuous (sess SA1 ?t3)" "inst (sess SA1 ?t3) = Some ?h"
    "pending (sess SA1 ?t3) = [?U, ?U, ?U]"
    "workers (sess SA1 ?t3) = [ContinuousWorker, ContinuousWorker]"
    using toggle_stops_fields [of SA1 u3] u3 by (simp_all add: ui_step_simps)
  have "continuous_loop SA1 dec_float
      ((([(Idle, ToggleContinuous)] @ [(ToggleContinuous, Idle)]) @ [(Idle, Idle)])
        @ (ToggleContinuous, Idle) # []) 0 (put SA1 s1 ?V) = Some (Suc (Suc (Suc 0)), ?t3)"
    using t3(1) by (intro loop_exit [OF r123]) simp
  then have l: "continuous_loop SA1 dec_float
      [(Idle, ToggleContinuous), (ToggleContinuous, Idle), (Idle, Idle), (ToggleContinuous, Idle)]
      0 (put SA1 s1 ?V) = Some (Suc (Suc (Suc 0)), ?t3)"
    by (simp del: continuous_loop.simps)
  show ?thesis
    using worker_after_loop [OF su l] t3 by (auto simp add: restart_run_def sess_def)
qed

text \<open>
  A stop request during the first iteration, then a start request before the loop looks
  at the flag again: the start sets the flag and starts a second worker, and the first
  loop goes on. When it is stopped at last it has completed three iterations, the one
  that was in flight and two more.
\<close>

theorem restart_before_check_keeps_looping:
  "map_option (pending \<circ> sa1) restart_run
     = Some [UpdatePlot [0, 5, 10] [1, 2, 3], UpdatePlot [0, 5, 10] [1, 2, 3],
          UpdatePlot [0, 5, 10] [1, 2, 3], SetContinuousActive False]
   \<and> map_option (workers \<circ> sa1) restart_run = Some [ContinuousWorker, ContinuousWorker]"
  using restart_run_result by auto

end
